theory Spec2Isabelle
  imports Complex_Main "HOL-Library.Word"
begin

unbundle bit_operations_syntax

section \<open>The MD5 digest used for cache file names\<close>

text \<open>
  \<^verbatim>\<open>hashlib.md5(url.encode()).hexdigest()\<close> is the only library computation the cache
  keys depend on. It is embedded here as the algorithm of RFC 1321 on 32-bit words: the
  message is padded with the byte 0x80, zero bytes up to 56 modulo 64 and the bit length as
  a 64-bit little-endian number; every 64-byte block is read as sixteen little-endian words
  and run through 64 steps; the four state words are written out little-endian and printed
  as 32 lowercase hexadecimal digits. A URL is represented by the bytes of its UTF-8
  encoding (the value of \<^verbatim>\<open>url.encode()\<close>), one \<^typ>\<open>char\<close> per byte.
\<close>

type_synonym u8 = "8 word"
type_synonym u32 = "32 word"

definition md5_K :: "u32 list" where
  "md5_K =
    [0xd76aa478, 0xe8c7b756, 0x242070db, 0xc1bdceee,
     0xf57c0faf, 0x4787c62a, 0xa8304613, 0xfd469501,
     0x698098d8, 0x8b44f7af, 0xffff5bb1, 0x895cd7be,
     0x6b901122, 0xfd987193, 0xa679438e, 0x49b40821,
     0xf61e2562, 0xc040b340, 0x265e5a51, 0xe9b6c7aa,
     0xd62f105d, 0x02441453, 0xd8a1e681, 0xe7d3fbc8,
     0x21e1cde6, 0xc33707d6, 0xf4d50d87, 0x455a14ed,
     0xa9e3e905, 0xfcefa3f8, 0x676f02d9, 0x8d2a4c8a,
     0xfffa3942, 0x8771f681, 0x6d9d6122, 0xfde5380c,
     0xa4beea44, 0x4bdecfa9, 0xf6bb4b60, 0xbebfbc70,
     0x289b7ec6, 0xeaa127fa, 0xd4ef3085, 0x04881d05,
     0xd9d4d039, 0xe6db99e5, 0x1fa27cf8, 0xc4ac5665,
     0xf4292244, 0x432aff97, 0xab9423a7, 0xfc93a039,
     0x655b59c3, 0x8f0ccc92, 0xffeff47d, 0x85845dd1,
     0x6fa87e4f, 0xfe2ce6e0, 0xa3014314, 0x4e0811a1,
     0xf7537e82, 0xbd3af235, 0x2ad7d2bb, 0xeb86d391]"

definition md5_S :: "nat list" where
  "md5_S =
    [7, 12, 17, 22, 7, 12, 17, 22, 7, 12, 17, 22, 7, 12, 17, 22,
     5, 9, 14, 20, 5, 9, 14, 20, 5, 9, 14, 20, 5, 9, 14, 20,
     4, 11, 16, 23, 4, 11, 16, 23, 4, 11, 16, 23, 4, 11, 16, 23,
     6, 10, 15, 21, 6, 10, 15, 21, 6, 10, 15, 21, 6, 10, 15, 21]"

definition rotl32 :: "u32 \<Rightarrow> nat \<Rightarrow> u32" where
  "rotl32 x s = push_bit s x OR drop_bit (32 - s) x"

definition md5_F :: "nat \<Rightarrow> u32 \<Rightarrow> u32 \<Rightarrow> u32 \<Rightarrow> u32" where
  "md5_F i b c d =
     (if i < 16 then (b AND c) OR (NOT b AND d)
      else if i < 32 then (d AND b) OR (NOT d AND c)
      else if i < 48 then b XOR c XOR d
      else c XOR (b OR NOT d))"

definition md5_g :: "nat \<Rightarrow> nat" where
  "md5_g i =
     (if i < 16 then i
      else if i < 32 then (5 * i + 1) mod 16
      else if i < 48 then (3 * i + 5) mod 16
      else (7 * i) mod 16)"

type_synonym md5_state = "u32 \<times> u32 \<times> u32 \<times> u32"

fun md5_step :: "u32 list \<Rightarrow> md5_state \<Rightarrow> nat \<Rightarrow> md5_state" where
  "md5_step m (a, b, c, d) i =
     (d, b + rotl32 (md5_F i b c d + a + md5_K ! i + m ! md5_g i) (md5_S ! i), b, c)"

fun le_word :: "u8 list \<Rightarrow> u32" where
  "le_word [b0, b1, b2, b3] =
     ucast b0 OR push_bit 8 (ucast b1) OR push_bit 16 (ucast b2) OR push_bit 24 (ucast b3)"
| "le_word _ = 0"

text \<open>\<open>chunks k xs\<close> cuts \<open>xs\<close> into consecutive pieces of \<open>k + 1\<close> elements
  (the last piece may be shorter).\<close>

fun chunks :: "nat \<Rightarrow> 'a list \<Rightarrow> 'a list list" where
  "chunks n [] = []"
| "chunks n (x # xs) = take (Suc n) (x # xs) # chunks n (drop n xs)"

fun md5_block :: "md5_state \<Rightarrow> u8 list \<Rightarrow> md5_state" where
  "md5_block (a0, b0, c0, d0) blk =
     (case foldl (md5_step (map le_word (chunks 3 blk))) (a0, b0, c0, d0) [0..<64] of
        (a, b, c, d) \<Rightarrow> (a0 + a, b0 + b, c0 + c, d0 + d))"

definition le_bytes :: "nat \<Rightarrow> 'a::len word \<Rightarrow> u8 list" where
  "le_bytes k w = map (\<lambda>i. ucast (drop_bit (8 * i) w)) [0..<k]"

definition md5_pad :: "u8 list \<Rightarrow> u8 list" where
  "md5_pad bs =
     bs @ [0x80] @ replicate ((119 - length bs mod 64) mod 64) 0
        @ le_bytes 8 (of_nat (8 * length bs) :: 64 word)"

definition md5_init :: md5_state where
  "md5_init = (0x67452301, 0xefcdab89, 0x98badcfe, 0x10325476)"

definition md5_digest :: "string \<Rightarrow> u8 list" where
  "md5_digest s =
     (case foldl md5_block md5_init (chunks 63 (md5_pad (map of_char s))) of
        (a, b, c, d) \<Rightarrow> concat (map (le_bytes 4) [a, b, c, d]))"

definition hex_digit :: "u8 \<Rightarrow> char" where
  "hex_digit n = ''0123456789abcdef'' ! unat n"

definition md5_hexdigest :: "string \<Rightarrow> string" where
  "md5_hexdigest s = concat (map (\<lambda>b. [hex_digit (drop_bit 4 b), hex_digit (b AND 0x0f)]) (md5_digest s))"

section \<open>Paths\<close>

text \<open>
  The three functions of \<^verbatim>\<open>os.path\<close> (POSIX flavour) the service calls.
  \<^verbatim>\<open>join(a, b)\<close> restarts at an absolute \<open>b\<close> and otherwise puts one separator between
  the parts; \<^verbatim>\<open>basename\<close> is what follows the last separator; \<^verbatim>\<open>dirname\<close> is what
  precedes it, with trailing separators stripped unless it consists of separators only.
\<close>

definition path_join :: "string \<Rightarrow> string \<Rightarrow> string" where
  "path_join a b =
     (if take 1 b = ''/'' then b
      else if a = [] \<or> take 1 (rev a) = ''/'' then a @ b
      else a @ ''/'' @ b)"

definition basename :: "string \<Rightarrow> string" where
  "basename p = rev (takeWhile (\<lambda>c. c \<noteq> CHR ''/'') (rev p))"

definition dirname :: "string \<Rightarrow> string" where
  "dirname p =
     (let head = rev (dropWhile (\<lambda>c. c \<noteq> CHR ''/'') (rev p))
      in if head \<noteq> [] \<and> \<not> list_all (\<lambda>c. c = CHR ''/'') head
         then rev (dropWhile (\<lambda>c. c = CHR ''/'') (rev head))
         else head)"

section \<open>Module constants and cache file names\<close>

definition FFMPEG_BUILDS_URL :: string where
  "FFMPEG_BUILDS_URL = ''https://github.com/yt-dlp/FFmpeg-Builds/releases/download/latest''"

definition CACHE_DIR :: string where
  "CACHE_DIR = ''/tmp/video_cache''"

definition AUDIO_CACHE_DIR :: string where
  "AUDIO_CACHE_DIR = ''/tmp/audio_cache''"

text \<open>
  Timestamps are the values of \<^verbatim>\<open>time.time()\<close>, seconds as Python floats; they are
  idealised as real numbers, so the rounding of a float subtraction is not part of the model.
\<close>

definition CACHE_EXPIRY_TIME :: real where
  "CACHE_EXPIRY_TIME = 15 * 60"

definition get_cache_filename :: "string \<Rightarrow> string" where
  "get_cache_filename url = md5_hexdigest url @ ''.mp4''"

definition get_audio_cache_filename :: "string \<Rightarrow> string" where
  "get_audio_cache_filename url = md5_hexdigest url @ ''.mp3''"

section \<open>Exceptions, responses, the process state and its surroundings\<close>

text \<open>
  \<open>LibraryError\<close> stands for any exception raised inside \<^verbatim>\<open>requests\<close>,
  \<^verbatim>\<open>subprocess\<close>, \<^verbatim>\<open>json\<close> or \<^verbatim>\<open>yt_dlp\<close>; it carries the text \<^verbatim>\<open>str(e)\<close>.
\<close>

datatype exn =
    HTTPException nat string
  | ValueError string
  | FileNotFoundError string
  | LibraryError string

datatype response = FileResponse string string string
  \<comment> \<open>path, media type, download file name\<close>

text \<open>
  The state the service reads and writes: the paths that exist on disk, the three module
  globals, and two logs that record every call of \<^verbatim>\<open>requests.get\<close> and of
  \<^verbatim>\<open>YoutubeDL.download\<close>, so that "nothing was downloaded" is a statement about the state.
\<close>

record world =
  files :: "string set"
  cached_video_path :: "string option"
  cached_audio_path :: "string option"
  last_access_time :: real
  requests_log :: "string list"
  ydl_log :: "string list"

text \<open>
  What the service does not decide itself. \<open>CONFIG_DIR\<close> is \<^verbatim>\<open>os.getenv('CONFIG', '/config')\<close>;
  \<open>platform_system\<close> and \<open>platform_machine\<close> are the lower-cased platform strings;
  \<open>mkdtemp\<close> is the fresh directory \<^verbatim>\<open>tempfile.mkdtemp()\<close> returns; \<open>requests_get\<close> is
  an error text when the request raises; \<open>tar_walk\<close> is an error text when \<^verbatim>\<open>tar\<close> fails
  and otherwise what \<^verbatim>\<open>os.walk(temp_dir)\<close> yields after the extraction (each directory with
  the names of its files); \<open>config_load\<close> is the outcome of \<^verbatim>\<open>json.load\<close> on an existing
  \<^verbatim>\<open>yt-dlp.json\<close>; \<open>ydl\<close> is the extraction tool: from the options, the URL and the
  paths that exist it gives the text of the exception it raises, if any, and the paths that
  exist afterwards; \<open>http_exception_str\<close> is \<^verbatim>\<open>str\<close> on an \<^verbatim>\<open>HTTPException\<close>, which
  depends on the installed framework version.
\<close>

record env =
  CONFIG_DIR :: string
  platform_system :: string
  platform_machine :: string
  mkdtemp :: string
  requests_get :: "string \<Rightarrow> string + unit"
  tar_walk :: "string + (string \<times> string list) list"
  config_load :: "string + (string \<rightharpoonup> string)"
  ydl :: "(string \<rightharpoonup> string) \<Rightarrow> string \<Rightarrow> string set \<Rightarrow> string option \<times> string set"
  http_exception_str :: "nat \<Rightarrow> string \<Rightarrow> string"

fun str_exn :: "env \<Rightarrow> exn \<Rightarrow> string" where
  "str_exn e (HTTPException code detail) = http_exception_str e code detail"
| "str_exn e (ValueError msg) = msg"
| "str_exn e (FileNotFoundError msg) = msg"
| "str_exn e (LibraryError msg) = msg"

section \<open>Installing the ffmpeg binary\<close>

definition get_ffmpeg_url :: "env \<Rightarrow> exn + string" where
  "get_ffmpeg_url e =
     (let system = platform_system e; machine = platform_machine e
      in if system = ''linux'' then
           if machine = ''x86_64'' then
             Inr (FFMPEG_BUILDS_URL @ ''/ffmpeg-master-latest-linux64-gpl.tar.xz'')
           else if machine = ''aarch64'' \<or> machine = ''arm64'' then
             Inr (FFMPEG_BUILDS_URL @ ''/ffmpeg-master-latest-linuxarm64-gpl.tar.xz'')
           else Inl (ValueError (''Unsupported Linux architecture: '' @ machine))
         else Inl (ValueError (''Unsupported system: '' @ system)))"

text \<open>The paths \<^verbatim>\<open>os.walk\<close> reports, and the first file named \<^verbatim>\<open>ffmpeg\<close> among them.\<close>

definition walk_paths :: "(string \<times> string list) list \<Rightarrow> string list" where
  "walk_paths wk = concat (map (\<lambda>(dir, fnames). dir # map (path_join dir) fnames) wk)"

fun find_ffmpeg :: "(string \<times> string list) list \<Rightarrow> string option" where
  "find_ffmpeg [] = None"
| "find_ffmpeg ((dir, fnames) # rest) =
     (if ''ffmpeg'' \<in> set fnames then Some (path_join dir ''ffmpeg'') else find_ffmpeg rest)"

text \<open>\<^verbatim>\<open>shutil.rmtree(d)\<close> removes \<open>d\<close> and every path below it.\<close>

definition rmtree :: "string \<Rightarrow> string set \<Rightarrow> string set" where
  "rmtree d fs = {p \<in> fs. \<not> (p = d \<or> take (length d + 1) p = d @ ''/'')}"

definition download_and_extract_ffmpeg :: "env \<Rightarrow> world \<Rightarrow> (exn + string) \<times> world" where
  "download_and_extract_ffmpeg e w =
     (let ffmpeg_path = path_join (CONFIG_DIR e) ''ffmpeg''
      in if ffmpeg_path \<in> files w then (Inr ffmpeg_path, w)
         else
           case get_ffmpeg_url e of
             Inl ex \<Rightarrow> (Inl ex, w)
           | Inr ffmpeg_url \<Rightarrow>
               let temp_dir = mkdtemp e;
                   w1 = w\<lparr>files := insert temp_dir (files w),
                          requests_log := requests_log w @ [ffmpeg_url]\<rparr>
               in case requests_get e ffmpeg_url of
                    Inl msg \<Rightarrow> (Inl (LibraryError msg), w1)
                  | Inr _ \<Rightarrow>
                      let archive_path = path_join temp_dir ''ffmpeg.archive'';
                          w2 = w1\<lparr>files := insert archive_path (files w1)\<rparr>
                      in case tar_walk e of
                           Inl msg \<Rightarrow> (Inl (LibraryError msg), w2)
                         | Inr wk \<Rightarrow>
                             let w3 = w2\<lparr>files := files w2 \<union> set (walk_paths wk)\<rparr>;
                                 w4 = (case find_ffmpeg wk of
                                         None \<Rightarrow> w3
                                       | Some src_path \<Rightarrow>
                                           w3\<lparr>files := insert ffmpeg_path (files w3 - {src_path})\<rparr>);
                                 w5 = w4\<lparr>files := rmtree temp_dir (files w4)\<rparr>
                             in if ffmpeg_path \<notin> files w5
                                then (Inl (FileNotFoundError
                                        ''FFmpeg binary not found in the extracted files''), w5)
                                else (Inr ffmpeg_path, w5))"

section \<open>The extraction tool\<close>

definition default_config :: "string \<rightharpoonup> string" where
  "default_config =
     [''format'' \<mapsto> ''bestvideo[ext=mp4]+bestaudio[ext=m4a]/mp4'',
      ''outtmpl'' \<mapsto> ''%(title)s-%(id)s.%(ext)s'']"

definition get_ytdlp_config :: "env \<Rightarrow> world \<Rightarrow> (exn + (string \<rightharpoonup> string)) \<times> world" where
  "get_ytdlp_config e w =
     (let config_path = path_join (CONFIG_DIR e) ''yt-dlp.json''
      in if config_path \<notin> files w
         then (Inr default_config, w\<lparr>files := insert config_path (files w)\<rparr>)
         else case config_load e of
                Inl msg \<Rightarrow> (Inl (LibraryError msg), w)
              | Inr cfg \<Rightarrow> (Inr cfg, w))"

text \<open>\<^verbatim>\<open>with yt_dlp.YoutubeDL(ydl_opts) as ydl: ydl.download([url])\<close>\<close>

definition ydl_download :: "env \<Rightarrow> (string \<rightharpoonup> string) \<Rightarrow> string \<Rightarrow> world \<Rightarrow> exn option \<times> world" where
  "ydl_download e ydl_opts url w =
     (case ydl e ydl_opts url (files w) of
        (raised, fs) \<Rightarrow>
          (map_option LibraryError raised, w\<lparr>files := fs, ydl_log := ydl_log w @ [url]\<rparr>))"

section \<open>The video handler\<close>

text \<open>
  Line 141, \<^verbatim>\<open>cached_video_path and os.path.basename(cached_video_path) == cache_filename\<close>:
  the resident path when the request is for the resident file. \<^verbatim>\<open>None\<close> and the empty
  string are both false in Python.
\<close>

definition video_cache_lookup :: "world \<Rightarrow> string \<Rightarrow> string option" where
  "video_cache_lookup w cache_filename =
     (case cached_video_path w of
        None \<Rightarrow> None
      | Some p \<Rightarrow> if p \<noteq> [] \<and> basename p = cache_filename then Some p else None)"

text \<open>Lines 146-155: the binary, the options, the download. The first exception ends it.\<close>

definition acquire_video :: "env \<Rightarrow> string \<Rightarrow> string \<Rightarrow> world \<Rightarrow> exn option \<times> world" where
  "acquire_video e url new_cache_filepath w =
     (case download_and_extract_ffmpeg e w of
        (Inl ex, w1) \<Rightarrow> (Some ex, w1)
      | (Inr ffmpeg_path, w1) \<Rightarrow>
          (case get_ytdlp_config e w1 of
             (Inl ex, w2) \<Rightarrow> (Some ex, w2)
           | (Inr cfg, w2) \<Rightarrow>
               ydl_download e
                 (cfg(''outtmpl'' \<mapsto> new_cache_filepath,
                      ''ffmpeg_location'' \<mapsto> dirname ffmpeg_path))
                 url w2))"

text \<open>Lines 161-167: remove the old resident file if it exists, then record the new one.\<close>

definition store_video :: "string \<Rightarrow> real \<Rightarrow> world \<Rightarrow> world" where
  "store_video new_cache_filepath now w =
     (let w1 = (case cached_video_path w of
                  None \<Rightarrow> w
                | Some old \<Rightarrow>
                    if old \<noteq> [] \<and> old \<in> files w then w\<lparr>files := files w - {old}\<rparr> else w)
      in w1\<lparr>cached_video_path := Some new_cache_filepath, last_access_time := now\<rparr>)"

text \<open>The body of the \<^verbatim>\<open>try\<close>, lines 140-170; \<open>now\<close> is the value of \<^verbatim>\<open>time.time()\<close>.\<close>

definition download_video_try ::
  "env \<Rightarrow> string \<Rightarrow> real \<Rightarrow> string \<Rightarrow> string \<Rightarrow> world \<Rightarrow> (exn + response) \<times> world" where
  "download_video_try e url now cache_filename new_cache_filepath w =
     (case video_cache_lookup w cache_filename of
        Some p \<Rightarrow>
          (Inr (FileResponse p ''video/mp4'' cache_filename), w\<lparr>last_access_time := now\<rparr>)
      | None \<Rightarrow>
          (case acquire_video e url new_cache_filepath w of
             (Some ex, w1) \<Rightarrow> (Inl ex, w1)
           | (None, w1) \<Rightarrow>
               if new_cache_filepath \<notin> files w1
               then (Inl (HTTPException 404 ''Video download failed''), w1)
               else (Inr (FileResponse new_cache_filepath ''video/mp4'' cache_filename),
                     store_video new_cache_filepath now w1)))"

text \<open>
  The handler, lines 133-176. \<^verbatim>\<open>except Exception\<close> catches whatever the body raised,
  removes the file at the new path if there is one, and raises status 500 with \<^verbatim>\<open>str(e)\<close>.
\<close>

definition download_video :: "env \<Rightarrow> string \<Rightarrow> real \<Rightarrow> world \<Rightarrow> (exn + response) \<times> world" where
  "download_video e url now w =
     (let cache_filename = get_cache_filename url;
          new_cache_filepath = path_join CACHE_DIR cache_filename
      in case download_video_try e url now cache_filename new_cache_filepath w of
           (Inr resp, w1) \<Rightarrow> (Inr resp, w1)
         | (Inl ex, w1) \<Rightarrow>
             (Inl (HTTPException 500 (str_exn e ex)),
              w1\<lparr>files := files w1 - {new_cache_filepath}\<rparr>))"

section \<open>The audio handler\<close>

definition audio_cache_lookup :: "world \<Rightarrow> string \<Rightarrow> string option" where
  "audio_cache_lookup w cache_filename =
     (case cached_audio_path w of
        None \<Rightarrow> None
      | Some p \<Rightarrow> if p \<noteq> [] \<and> basename p = cache_filename then Some p else None)"

text \<open>
  Lines 192-206. The options are written in the handler; the nested post-processor entry is
  kept as one string. \<^verbatim>\<open>new_cache_filepath[:-4]\<close> drops the last four characters.
\<close>

definition acquire_audio :: "env \<Rightarrow> string \<Rightarrow> string \<Rightarrow> world \<Rightarrow> exn option \<times> world" where
  "acquire_audio e url new_cache_filepath w =
     (case download_and_extract_ffmpeg e w of
        (Inl ex, w1) \<Rightarrow> (Some ex, w1)
      | (Inr ffmpeg_path, w1) \<Rightarrow>
          ydl_download e
            [''format'' \<mapsto> ''bestaudio/best'',
             ''postprocessors'' \<mapsto> ''FFmpegExtractAudio mp3 128'',
             ''outtmpl'' \<mapsto> take (length new_cache_filepath - 4) new_cache_filepath,
             ''ffmpeg_location'' \<mapsto> dirname ffmpeg_path]
            url w1)"

definition store_audio :: "string \<Rightarrow> real \<Rightarrow> world \<Rightarrow> world" where
  "store_audio new_cache_filepath now w =
     (let w1 = (case cached_audio_path w of
                  None \<Rightarrow> w
                | Some old \<Rightarrow>
                    if old \<noteq> [] \<and> old \<in> files w then w\<lparr>files := files w - {old}\<rparr> else w)
      in w1\<lparr>cached_audio_path := Some new_cache_filepath, last_access_time := now\<rparr>)"

definition download_audio_try ::
  "env \<Rightarrow> string \<Rightarrow> real \<Rightarrow> string \<Rightarrow> string \<Rightarrow> world \<Rightarrow> (exn + response) \<times> world" where
  "download_audio_try e url now cache_filename new_cache_filepath w =
     (case audio_cache_lookup w cache_filename of
        Some p \<Rightarrow>
          (Inr (FileResponse p ''audio/mpeg'' cache_filename), w\<lparr>last_access_time := now\<rparr>)
      | None \<Rightarrow>
          (case acquire_audio e url new_cache_filepath w of
             (Some ex, w1) \<Rightarrow> (Inl ex, w1)
           | (None, w1) \<Rightarrow>
               if new_cache_filepath \<notin> files w1
               then (Inl (HTTPException 404 ''Audio download failed''), w1)
               else (Inr (FileResponse new_cache_filepath ''audio/mpeg'' cache_filename),
                     store_audio new_cache_filepath now w1)))"

definition download_audio :: "env \<Rightarrow> string \<Rightarrow> real \<Rightarrow> world \<Rightarrow> (exn + response) \<times> world" where
  "download_audio e url now w =
     (let cache_filename = get_audio_cache_filename url;
          new_cache_filepath = path_join AUDIO_CACHE_DIR cache_filename
      in case download_audio_try e url now cache_filename new_cache_filepath w of
           (Inr resp, w1) \<Rightarrow> (Inr resp, w1)
         | (Inl ex, w1) \<Rightarrow>
             (Inl (HTTPException 500 (str_exn e ex)),
              w1\<lparr>files := files w1 - {new_cache_filepath}\<rparr>))"

section \<open>The sweepers\<close>

text \<open>
  \<^verbatim>\<open>clean_cache\<close> and \<^verbatim>\<open>clean_audio_cache\<close> never return: each sleeps 60 seconds and
  then runs the body below, for ever. One pass of the body at wall-clock time \<open>now\<close> is a
  state transition; the handlers contain no \<^verbatim>\<open>await\<close>, so a pass never interleaves
  with a request. Both sweepers read and reset the one global \<^verbatim>\<open>last_access_time\<close>.
\<close>

definition clean_cache_pass :: "real \<Rightarrow> world \<Rightarrow> world" where
  "clean_cache_pass now w =
     (case cached_video_path w of
        None \<Rightarrow> w
      | Some p \<Rightarrow>
          if p \<noteq> [] \<and> now - last_access_time w > CACHE_EXPIRY_TIME
          then w\<lparr>files := files w - {p}, cached_video_path := None, last_access_time := 0\<rparr>
          else w)"

definition clean_audio_cache_pass :: "real \<Rightarrow> world \<Rightarrow> world" where
  "clean_audio_cache_pass now w =
     (case cached_audio_path w of
        None \<Rightarrow> w
      | Some p \<Rightarrow>
          if p \<noteq> [] \<and> now - last_access_time w > CACHE_EXPIRY_TIME
          then w\<lparr>files := files w - {p}, cached_audio_path := None, last_access_time := 0\<rparr>
          else w)"

section \<open>Concrete surroundings and states\<close>

text \<open>
  Three behaviours of the extraction tool: it writes the output file (for audio the
  post-processor appends \<^verbatim>\<open>.mp3\<close> to the template), it raises after leaving a file at
  the output path, or it returns without raising and without writing anything.
\<close>

definition ydl_writes :: "(string \<rightharpoonup> string) \<Rightarrow> string \<Rightarrow> string set \<Rightarrow> string option \<times> string set" where
  "ydl_writes opts url fs =
     (None, case opts ''outtmpl'' of
              None \<Rightarrow> fs
            | Some p \<Rightarrow> insert (if opts ''postprocessors'' = None then p else p @ ''.mp3'') fs)"

definition ydl_fails :: "(string \<rightharpoonup> string) \<Rightarrow> string \<Rightarrow> string set \<Rightarrow> string option \<times> string set" where
  "ydl_fails opts url fs =
     (Some ''ERROR: Unsupported URL'',
      case opts ''outtmpl'' of
        None \<Rightarrow> fs
      | Some p \<Rightarrow> insert (if opts ''postprocessors'' = None then p else p @ ''.mp3'') fs)"

definition ydl_silent :: "(string \<rightharpoonup> string) \<Rightarrow> string \<Rightarrow> string set \<Rightarrow> string option \<times> string set" where
  "ydl_silent opts url fs = (None, fs)"

text \<open>
  A Linux x86-64 host with the default configuration, an archive that holds the binary in
  a sub-directory, and \<^verbatim>\<open>str\<close> of an \<^verbatim>\<open>HTTPException\<close> printed as status, colon, detail.
\<close>

definition example_env ::
  "((string \<rightharpoonup> string) \<Rightarrow> string \<Rightarrow> string set \<Rightarrow> string option \<times> string set) \<Rightarrow> env" where
  "example_env tool =
     \<lparr>CONFIG_DIR = ''/config'', platform_system = ''linux'', platform_machine = ''x86_64'',
      mkdtemp = ''/tmp/tmpx'', requests_get = (\<lambda>_. Inr ()),
      tar_walk = Inr [(''/tmp/tmpx'', [''ffmpeg.archive'']), (''/tmp/tmpx/build/bin'', [''ffmpeg'', ''ffprobe''])],
      config_load = Inr default_config, ydl = tool,
      http_exception_str = (\<lambda>code detail. (if code = 404 then ''404'' else ''500'') @ '': '' @ detail)\<rparr>"

text \<open>
  \<open>world_one\<close>: the video of \<^verbatim>\<open>https://x/1\<close> is resident, last used at time 100.
  \<open>world_two\<close>: in addition the audio of \<^verbatim>\<open>https://x/2\<close> is resident.
  \<open>world_zero\<close>: the state after start-up, nothing installed and nothing cached.
\<close>

definition world_one :: world where
  "world_one =
     \<lparr>files = {''/config/ffmpeg'', ''/config/yt-dlp.json'',
               ''/tmp/video_cache/2b6a374db3ab8f57f12fc5ebaf42145e.mp4''},
      cached_video_path = Some ''/tmp/video_cache/2b6a374db3ab8f57f12fc5ebaf42145e.mp4'',
      cached_audio_path = None, last_access_time = 100,
      requests_log = [], ydl_log = [''https://x/1'']\<rparr>"


definition world_two :: world where
  "world_two =
     \<lparr>files = {''/config/ffmpeg'', ''/config/yt-dlp.json'',
               ''/tmp/video_cache/2b6a374db3ab8f57f12fc5ebaf42145e.mp4'',
               ''/tmp/audio_cache/2261a33c50b05c275acf523c6e502e53.mp3''},
      cached_video_path = Some ''/tmp/video_cache/2b6a374db3ab8f57f12fc5ebaf42145e.mp4'',
      cached_audio_path = Some ''/tmp/audio_cache/2261a33c50b05c275acf523c6e502e53.mp3'',
      last_access_time = 100,
      requests_log = [], ydl_log = [''https://x/1'', ''https://x/2'']\<rparr>"


definition world_zero :: world where
  "world_zero =
     \<lparr>files = {''/config'', ''/tmp/video_cache'', ''/tmp/audio_cache''},
      cached_video_path = None, cached_audio_path = None, last_access_time = 0,
      requests_log = [], ydl_log = []\<rparr>"

section \<open>Shape of the digest\<close>

lemma length_md5_digest: "length (md5_digest s) = 16"
  by (simp add: md5_digest_def le_bytes_def split: prod.splits)

lemma length_md5_hexdigest: "length (md5_hexdigest s) = 32"
proof -
  have "length (concat (map (\<lambda>b. [hex_digit (drop_bit 4 b), hex_digit (b AND 0x0f)]) bs)) = 2 * length bs"
    for bs :: "u8 list"
    by (induction bs) simp_all
  then show ?thesis
    by (simp add: md5_hexdigest_def length_md5_digest)
qed

lemma hex_digit_range: "unat n < 16 \<Longrightarrow> hex_digit n \<in> set ''0123456789abcdef''"
  unfolding hex_digit_def by (rule nth_mem) simp

lemma high_nibble_bound: "unat (drop_bit 4 (b :: u8)) < 16"
proof -
  have "unat b < 2 ^ 8" using unsigned_less [of b] by simp
  moreover have "unat (drop_bit 4 b) = drop_bit 4 (unat b)"
    by (rule unat_drop_bit_eq)
  ultimately show ?thesis by (simp add: drop_bit_eq_div)
qed

lemma low_nibble_bound: "unat ((b :: u8) AND 0x0f) < 16"
proof -
  have "b AND 15 \<le> 15" by (rule word_and_le1)
  then have "unat (b AND 15) \<le> 15" by (simp add: word_le_nat_alt)
  then show ?thesis by simp
qed

lemma md5_hexdigest_chars: "set (md5_hexdigest s) \<subseteq> set ''0123456789abcdef''"
  unfolding md5_hexdigest_def
  using hex_digit_range [OF high_nibble_bound] hex_digit_range [OF low_nibble_bound]
  by auto

lemma md5_hexdigest_no_sep: "CHR ''/'' \<notin> set (md5_hexdigest s)"
  using md5_hexdigest_chars [of s] by auto

lemma md5_hexdigest_no_dot: "CHR ''.'' \<notin> set (md5_hexdigest s)"
  using md5_hexdigest_chars [of s] by auto

lemma md5_hexdigest_nonempty: "md5_hexdigest s \<noteq> []"
  using length_md5_hexdigest [of s] by auto

lemma basename_join:
  assumes "CHR ''/'' \<notin> set f" "d \<noteq> []" "take 1 (rev d) \<noteq> ''/''"
  shows "basename (path_join d f) = f"
proof -
  have "take 1 f \<noteq> ''/''" using assms(1) by (cases f) auto
  then have "path_join d f = d @ ''/'' @ f" using assms by (simp add: path_join_def)
  moreover have "takeWhile (\<lambda>c. c \<noteq> CHR ''/'') (rev f @ CHR ''/'' # rev d) = rev f"
    using assms(1) by (auto simp: takeWhile_tail)
  ultimately show ?thesis by (simp add: basename_def)
qed

section \<open>Cache file names and destination paths\<close>

lemma dirname_join:
  assumes "CHR ''/'' \<notin> set f"
  shows "dirname (d @ ''/'' @ f) = dirname (d @ ''/'')"
proof -
  have "dropWhile (\<lambda>c. c \<noteq> CHR ''/'') (rev f @ CHR ''/'' # rev d) = CHR ''/'' # rev d"
    using assms by (subst dropWhile_append2) auto
  then show ?thesis by (simp add: dirname_def)
qed

lemma video_path_shape:
  "path_join CACHE_DIR (get_cache_filename url) = ''/tmp/video_cache/'' @ md5_hexdigest url @ ''.mp4''"
  using md5_hexdigest_nonempty [of url] md5_hexdigest_no_sep [of url]
  by (cases "md5_hexdigest url") (auto simp: path_join_def CACHE_DIR_def get_cache_filename_def)

lemma audio_path_shape:
  "path_join AUDIO_CACHE_DIR (get_audio_cache_filename url) = ''/tmp/audio_cache/'' @ md5_hexdigest url @ ''.mp3''"
  using md5_hexdigest_nonempty [of url] md5_hexdigest_no_sep [of url]
  by (cases "md5_hexdigest url") (auto simp: path_join_def AUDIO_CACHE_DIR_def get_audio_cache_filename_def)

lemma video_filename_no_sep: "CHR ''/'' \<notin> set (get_cache_filename url)"
  using md5_hexdigest_no_sep [of url] by (simp add: get_cache_filename_def)

lemma audio_filename_no_sep: "CHR ''/'' \<notin> set (get_audio_cache_filename url)"
  using md5_hexdigest_no_sep [of url] by (simp add: get_audio_cache_filename_def)

lemma video_path_basename:
  "basename (path_join CACHE_DIR (get_cache_filename url)) = get_cache_filename url"
  by (rule basename_join [OF video_filename_no_sep]) (simp_all add: CACHE_DIR_def)

lemma audio_path_basename:
  "basename (path_join AUDIO_CACHE_DIR (get_audio_cache_filename url)) = get_audio_cache_filename url"
  by (rule basename_join [OF audio_filename_no_sep]) (simp_all add: AUDIO_CACHE_DIR_def)

lemma video_path_dirname:
  "dirname (path_join CACHE_DIR (get_cache_filename url)) = CACHE_DIR"
proof -
  have "dirname (''/tmp/video_cache'' @ ''/'' @ get_cache_filename url) = dirname (''/tmp/video_cache'' @ ''/'')"
    by (rule dirname_join [OF video_filename_no_sep])
  moreover have "dirname (''/tmp/video_cache'' @ ''/'') = CACHE_DIR"
    by (simp add: dirname_def CACHE_DIR_def)
  ultimately show ?thesis
    unfolding video_path_shape by (simp add: get_cache_filename_def)
qed

lemma audio_path_dirname:
  "dirname (path_join AUDIO_CACHE_DIR (get_audio_cache_filename url)) = AUDIO_CACHE_DIR"
proof -
  have "dirname (''/tmp/audio_cache'' @ ''/'' @ get_audio_cache_filename url) = dirname (''/tmp/audio_cache'' @ ''/'')"
    by (rule dirname_join [OF audio_filename_no_sep])
  moreover have "dirname (''/tmp/audio_cache'' @ ''/'') = AUDIO_CACHE_DIR"
    by (simp add: dirname_def AUDIO_CACHE_DIR_def)
  ultimately show ?thesis
    unfolding audio_path_shape by (simp add: get_audio_cache_filename_def)
qed

text \<open>The embedding on the test suite of RFC 1321 and on the URLs used below.\<close>

lemma md5_rfc1321_empty: "md5_hexdigest [] = ''d41d8cd98f00b204e9800998ecf8427e''"
  by code_simp

lemma md5_rfc1321_abc: "md5_hexdigest ''abc'' = ''900150983cd24fb0d6963f7d28e17f72''"
  by code_simp

lemma md5_url1: "md5_hexdigest ''https://x/1'' = ''2b6a374db3ab8f57f12fc5ebaf42145e''"
  by code_simp

text \<open>
  Claim C10. For every URL the cache file name is the 32 lowercase hexadecimal digits
  of the MD5 digest of the URL followed by \<^verbatim>\<open>.mp4\<close> (video) or \<^verbatim>\<open>.mp3\<close> (audio). The
  destination path is the cache directory of the kind, one separator and that name: its
  \<^verbatim>\<open>dirname\<close> is the cache directory and its \<^verbatim>\<open>basename\<close> the file name, whatever
  characters the URL contains.
\<close>

theorem cache_filename_shape:
  "get_cache_filename url = md5_hexdigest url @ ''.mp4'' \<and>
   get_audio_cache_filename url = md5_hexdigest url @ ''.mp3'' \<and>
   length (md5_hexdigest url) = 32 \<and>
   set (md5_hexdigest url) \<subseteq> set ''0123456789abcdef'' \<and>
   path_join CACHE_DIR (get_cache_filename url) = ''/tmp/video_cache/'' @ md5_hexdigest url @ ''.mp4'' \<and>
   path_join AUDIO_CACHE_DIR (get_audio_cache_filename url) = ''/tmp/audio_cache/'' @ md5_hexdigest url @ ''.mp3'' \<and>
   dirname (path_join CACHE_DIR (get_cache_filename url)) = CACHE_DIR \<and>
   basename (path_join CACHE_DIR (get_cache_filename url)) = get_cache_filename url \<and>
   dirname (path_join AUDIO_CACHE_DIR (get_audio_cache_filename url)) = AUDIO_CACHE_DIR \<and>
   basename (path_join AUDIO_CACHE_DIR (get_audio_cache_filename url)) = get_audio_cache_filename url"
  using length_md5_hexdigest [of url] md5_hexdigest_chars [of url]
    video_path_shape [of url] audio_path_shape [of url]
    video_path_dirname [of url] video_path_basename [of url]
    audio_path_dirname [of url] audio_path_basename [of url]
  by (simp add: get_cache_filename_def get_audio_cache_filename_def)

text \<open>
  The statement of C10 at the URL \<^verbatim>\<open>https://x/1\<close>.
\<close>

theorem cache_filename_shape_witness:
  "get_cache_filename ''https://x/1'' = ''2b6a374db3ab8f57f12fc5ebaf42145e.mp4'' \<and>
   path_join CACHE_DIR (get_cache_filename ''https://x/1'')
     = ''/tmp/video_cache/2b6a374db3ab8f57f12fc5ebaf42145e.mp4'' \<and>
   path_join AUDIO_CACHE_DIR (get_audio_cache_filename ''https://x/1'')
     = ''/tmp/audio_cache/2b6a374db3ab8f57f12fc5ebaf42145e.mp3''"
  using cache_filename_shape [of "''https://x/1''"]
  by (simp add: md5_url1 get_cache_filename_def get_audio_cache_filename_def)

text \<open>
  Claim C1, as the code has it. The digest is taken of the URL alone and the kind is
  told apart by the extension appended to the digest. A video key and an audio key are never
  equal, for any two URLs; two keys of the same kind are equal exactly when the MD5 digests
  of the two URLs are equal.
\<close>

theorem cache_keys_by_kind:
  "get_cache_filename u \<noteq> get_audio_cache_filename u' \<and>
   (get_cache_filename u = get_cache_filename u' \<longleftrightarrow> md5_hexdigest u = md5_hexdigest u') \<and>
   (get_audio_cache_filename u = get_audio_cache_filename u' \<longleftrightarrow> md5_hexdigest u = md5_hexdigest u')"
proof -
  have "length (md5_hexdigest u) = length (md5_hexdigest u')"
    by (simp add: length_md5_hexdigest)
  then have "md5_hexdigest u @ ''.mp4'' \<noteq> md5_hexdigest u' @ ''.mp3''"
    by simp
  then show ?thesis
    by (simp add: get_cache_filename_def get_audio_cache_filename_def)
qed

section \<open>Two URLs with one cache key\<close>

lemma md5_collision_left:
  "md5_hexdigest ''TEXTCOLLBYfGiJUETHQ4hAcKSMd5zYpgqf1YRDhkmxHkhPWptrkoyz28wnI9V0aHeAuaKnak''
     = ''faad49866e9498fc1719f5289e7a0269''"
  by code_simp

lemma md5_collision_right:
  "md5_hexdigest ''TEXTCOLLBYfGiJUETHQ4hEcKSMd5zYpgqf1YRDhkmxHkhPWptrkoyz28wnI9V0aHeAuaKnak''
     = ''faad49866e9498fc1719f5289e7a0269''"
  by code_simp

text \<open>
  Claim C1 as stated fails: two different URL strings whose video keys are equal, and
  whose audio keys are equal (a known pair of colliding MD5 inputs).
\<close>

theorem md5_key_collision_counterexample:
  "''TEXTCOLLBYfGiJUETHQ4hAcKSMd5zYpgqf1YRDhkmxHkhPWptrkoyz28wnI9V0aHeAuaKnak''
     \<noteq> ''TEXTCOLLBYfGiJUETHQ4hEcKSMd5zYpgqf1YRDhkmxHkhPWptrkoyz28wnI9V0aHeAuaKnak'' \<and>
   get_cache_filename ''TEXTCOLLBYfGiJUETHQ4hAcKSMd5zYpgqf1YRDhkmxHkhPWptrkoyz28wnI9V0aHeAuaKnak''
     = get_cache_filename ''TEXTCOLLBYfGiJUETHQ4hEcKSMd5zYpgqf1YRDhkmxHkhPWptrkoyz28wnI9V0aHeAuaKnak'' \<and>
   get_audio_cache_filename ''TEXTCOLLBYfGiJUETHQ4hAcKSMd5zYpgqf1YRDhkmxHkhPWptrkoyz28wnI9V0aHeAuaKnak''
     = get_audio_cache_filename ''TEXTCOLLBYfGiJUETHQ4hEcKSMd5zYpgqf1YRDhkmxHkhPWptrkoyz28wnI9V0aHeAuaKnak''"
  by (simp add: get_cache_filename_def get_audio_cache_filename_def
        md5_collision_left md5_collision_right)

section \<open>What the external steps leave alone, and the four ways a request ends\<close>

lemma ffmpeg_frame:
  assumes "download_and_extract_ffmpeg e w = (r, w1)"
  shows "cached_video_path w1 = cached_video_path w \<and> cached_audio_path w1 = cached_audio_path w \<and>
         last_access_time w1 = last_access_time w \<and> ydl_log w1 = ydl_log w"
  using assms
  by (auto simp: download_and_extract_ffmpeg_def Let_def
           split: if_splits sum.splits option.splits)

lemma config_frame:
  assumes "get_ytdlp_config e w = (r, w1)"
  shows "cached_video_path w1 = cached_video_path w \<and> cached_audio_path w1 = cached_audio_path w \<and>
         last_access_time w1 = last_access_time w \<and> ydl_log w1 = ydl_log w"
  using assms
  by (auto simp: get_ytdlp_config_def Let_def split: if_splits sum.splits)

lemma ydl_download_frame:
  assumes "ydl_download e opts url w = (r, w1)"
  shows "cached_video_path w1 = cached_video_path w \<and> cached_audio_path w1 = cached_audio_path w \<and>
         last_access_time w1 = last_access_time w"
  using assms
  by (auto simp: ydl_download_def split: prod.splits)

lemma acquire_video_frame:
  assumes "acquire_video e url p w = (r, w1)"
  shows "cached_video_path w1 = cached_video_path w \<and> cached_audio_path w1 = cached_audio_path w \<and>
         last_access_time w1 = last_access_time w"
proof (cases "download_and_extract_ffmpeg e w")
  case (Pair r1 wa)
  note f = ffmpeg_frame [OF Pair]
  show ?thesis
  proof (cases r1)
    case (Inl ex)
    with assms Pair f show ?thesis by (simp add: acquire_video_def)
  next
    case (Inr fp)
    show ?thesis
    proof (cases "get_ytdlp_config e wa")
      case (Pair r2 wb)
      note c = config_frame [OF Pair]
      show ?thesis
      proof (cases r2)
        case (Inl ex)
        with assms \<open>download_and_extract_ffmpeg e w = (r1, wa)\<close> Inr Pair f c show ?thesis
          by (simp add: acquire_video_def)
      next
        case (Inr cfg)
        with assms \<open>download_and_extract_ffmpeg e w = (r1, wa)\<close> \<open>r1 = Inr fp\<close> Pair
        have "ydl_download e (cfg(''outtmpl'' \<mapsto> p, ''ffmpeg_location'' \<mapsto> dirname fp)) url wb = (r, w1)"
          by (simp add: acquire_video_def)
        from ydl_download_frame [OF this] f c show ?thesis by simp
      qed
    qed
  qed
qed

lemma acquire_audio_frame:
  assumes "acquire_audio e url p w = (r, w1)"
  shows "cached_video_path w1 = cached_video_path w \<and> cached_audio_path w1 = cached_audio_path w \<and>
         last_access_time w1 = last_access_time w"
proof (cases "download_and_extract_ffmpeg e w")
  case (Pair r1 wa)
  note f = ffmpeg_frame [OF Pair]
  show ?thesis
  proof (cases r1)
    case (Inl ex)
    with assms Pair f show ?thesis by (simp add: acquire_audio_def)
  next
    case (Inr fp)
    with assms Pair
    have "\<exists>opts. ydl_download e opts url wa = (r, w1)"
      by (auto simp: acquire_audio_def)
    then obtain opts where "ydl_download e opts url wa = (r, w1)" ..
    from ydl_download_frame [OF this] f show ?thesis by simp
  qed
qed

lemma video_hit:
  assumes "video_cache_lookup w (get_cache_filename url) = Some p"
  shows "download_video e url now w =
           (Inr (FileResponse p ''video/mp4'' (get_cache_filename url)), w\<lparr>last_access_time := now\<rparr>)"
  by (simp add: download_video_def download_video_try_def Let_def assms)

lemma video_miss_error:
  assumes "video_cache_lookup w (get_cache_filename url) = None"
    and "acquire_video e url (path_join CACHE_DIR (get_cache_filename url)) w = (Some ex, w1)"
  shows "download_video e url now w =
           (Inl (HTTPException 500 (str_exn e ex)),
            w1\<lparr>files := files w1 - {path_join CACHE_DIR (get_cache_filename url)}\<rparr>)"
  by (simp add: download_video_def download_video_try_def Let_def assms)

lemma video_miss_missing:
  assumes "video_cache_lookup w (get_cache_filename url) = None"
    and "acquire_video e url (path_join CACHE_DIR (get_cache_filename url)) w = (None, w1)"
    and "path_join CACHE_DIR (get_cache_filename url) \<notin> files w1"
  shows "download_video e url now w =
           (Inl (HTTPException 500 (http_exception_str e 404 ''Video download failed'')),
            w1\<lparr>files := files w1 - {path_join CACHE_DIR (get_cache_filename url)}\<rparr>)"
  by (simp add: download_video_def download_video_try_def Let_def assms)

lemma video_miss_success:
  assumes "video_cache_lookup w (get_cache_filename url) = None"
    and "acquire_video e url (path_join CACHE_DIR (get_cache_filename url)) w = (None, w1)"
    and "path_join CACHE_DIR (get_cache_filename url) \<in> files w1"
  shows "download_video e url now w =
           (Inr (FileResponse (path_join CACHE_DIR (get_cache_filename url)) ''video/mp4''
                   (get_cache_filename url)),
            store_video (path_join CACHE_DIR (get_cache_filename url)) now w1)"
  by (simp add: download_video_def download_video_try_def Let_def assms)

lemma audio_hit:
  assumes "audio_cache_lookup w (get_audio_cache_filename url) = Some p"
  shows "download_audio e url now w =
           (Inr (FileResponse p ''audio/mpeg'' (get_audio_cache_filename url)), w\<lparr>last_access_time := now\<rparr>)"
  by (simp add: download_audio_def download_audio_try_def Let_def assms)

lemma audio_miss_error:
  assumes "audio_cache_lookup w (get_audio_cache_filename url) = None"
    and "acquire_audio e url (path_join AUDIO_CACHE_DIR (get_audio_cache_filename url)) w = (Some ex, w1)"
  shows "download_audio e url now w =
           (Inl (HTTPException 500 (str_exn e ex)),
            w1\<lparr>files := files w1 - {path_join AUDIO_CACHE_DIR (get_audio_cache_filename url)}\<rparr>)"
  by (simp add: download_audio_def download_audio_try_def Let_def assms)

lemma audio_miss_missing:
  assumes "audio_cache_lookup w (get_audio_cache_filename url) = None"
    and "acquire_audio e url (path_join AUDIO_CACHE_DIR (get_audio_cache_filename url)) w = (None, w1)"
    and "path_join AUDIO_CACHE_DIR (get_audio_cache_filename url) \<notin> files w1"
  shows "download_audio e url now w =
           (Inl (HTTPException 500 (http_exception_str e 404 ''Audio download failed'')),
            w1\<lparr>files := files w1 - {path_join AUDIO_CACHE_DIR (get_audio_cache_filename url)}\<rparr>)"
  by (simp add: download_audio_def download_audio_try_def Let_def assms)

lemma audio_miss_success:
  assumes "audio_cache_lookup w (get_audio_cache_filename url) = None"
    and "acquire_audio e url (path_join AUDIO_CACHE_DIR (get_audio_cache_filename url)) w = (None, w1)"
    and "path_join AUDIO_CACHE_DIR (get_audio_cache_filename url) \<in> files w1"
  shows "download_audio e url now w =
           (Inr (FileResponse (path_join AUDIO_CACHE_DIR (get_audio_cache_filename url)) ''audio/mpeg''
                   (get_audio_cache_filename url)),
            store_audio (path_join AUDIO_CACHE_DIR (get_audio_cache_filename url)) now w1)"
  by (simp add: download_audio_def download_audio_try_def Let_def assms)

lemma video_lookup_SomeD:
  "video_cache_lookup w f = Some p \<Longrightarrow> cached_video_path w = Some p \<and> p \<noteq> [] \<and> basename p = f"
  by (auto simp: video_cache_lookup_def split: option.splits if_splits)

lemma audio_lookup_SomeD:
  "audio_cache_lookup w f = Some p \<Longrightarrow> cached_audio_path w = Some p \<and> p \<noteq> [] \<and> basename p = f"
  by (auto simp: audio_cache_lookup_def split: option.splits if_splits)

lemma video_miss_new_path:
  assumes "video_cache_lookup w (get_cache_filename url) = None" "cached_video_path w = Some p" "p \<noteq> []"
  shows "p \<noteq> path_join CACHE_DIR (get_cache_filename url)"
  using assms video_path_basename [of url]
  by (auto simp: video_cache_lookup_def split: if_splits)

lemma audio_miss_new_path:
  assumes "audio_cache_lookup w (get_audio_cache_filename url) = None" "cached_audio_path w = Some p" "p \<noteq> []"
  shows "p \<noteq> path_join AUDIO_CACHE_DIR (get_audio_cache_filename url)"
  using assms audio_path_basename [of url]
  by (auto simp: audio_cache_lookup_def split: if_splits)

section \<open>A failed acquisition\<close>

lemma md5_url2: "md5_hexdigest ''https://x/2'' = ''2261a33c50b05c275acf523c6e502e53''"
  by code_simp

lemma video_failure:
  assumes "video_cache_lookup w (get_cache_filename url) = None"
    and "fst (acquire_video e url (path_join CACHE_DIR (get_cache_filename url)) w) = Some ex"
  shows "case download_video e url now w of
           (r, w') \<Rightarrow>
             r = Inl (HTTPException 500 (str_exn e ex)) \<and>
             cached_video_path w' = cached_video_path w \<and>
             cached_audio_path w' = cached_audio_path w \<and>
             last_access_time w' = last_access_time w \<and>
             path_join CACHE_DIR (get_cache_filename url) \<notin> files w'"
proof -
  obtain w1 where a: "acquire_video e url (path_join CACHE_DIR (get_cache_filename url)) w = (Some ex, w1)"
    using assms(2) by (cases "acquire_video e url (path_join CACHE_DIR (get_cache_filename url)) w") auto
  show ?thesis
    using acquire_video_frame [OF a] by (simp add: video_miss_error [OF assms(1) a])
qed

lemma audio_failure:
  assumes "audio_cache_lookup w (get_audio_cache_filename url) = None"
    and "fst (acquire_audio e url (path_join AUDIO_CACHE_DIR (get_audio_cache_filename url)) w) = Some ex"
  shows "case download_audio e url now w of
           (r, w') \<Rightarrow>
             r = Inl (HTTPException 500 (str_exn e ex)) \<and>
             cached_video_path w' = cached_video_path w \<and>
             cached_audio_path w' = cached_audio_path w \<and>
             last_access_time w' = last_access_time w \<and>
             path_join AUDIO_CACHE_DIR (get_audio_cache_filename url) \<notin> files w'"
proof -
  obtain w1 where a: "acquire_audio e url (path_join AUDIO_CACHE_DIR (get_audio_cache_filename url)) w = (Some ex, w1)"
    using assms(2) by (cases "acquire_audio e url (path_join AUDIO_CACHE_DIR (get_audio_cache_filename url)) w") auto
  show ?thesis
    using acquire_audio_frame [OF a] by (simp add: audio_miss_error [OF assms(1) a])
qed

text \<open>
  Claim C5. When the request is a miss and the acquisition (binary, options, download)
  raises, the handler answers with an error of status 500 carrying the text of the exception,
  the two cached paths and the access time are what they were, and no file exists at the
  destination path afterwards. Video and audio alike.
\<close>

theorem failed_acquisition_keeps_slots:
  "(video_cache_lookup w (get_cache_filename url) = None \<and>
    fst (acquire_video e url (path_join CACHE_DIR (get_cache_filename url)) w) = Some ex \<longrightarrow>
      (case download_video e url now w of
         (r, w') \<Rightarrow>
           r = Inl (HTTPException 500 (str_exn e ex)) \<and>
           cached_video_path w' = cached_video_path w \<and>
           cached_audio_path w' = cached_audio_path w \<and>
           last_access_time w' = last_access_time w \<and>
           path_join CACHE_DIR (get_cache_filename url) \<notin> files w')) \<and>
   (audio_cache_lookup w (get_audio_cache_filename url) = None \<and>
    fst (acquire_audio e url (path_join AUDIO_CACHE_DIR (get_audio_cache_filename url)) w) = Some ex \<longrightarrow>
      (case download_audio e url now w of
         (r, w') \<Rightarrow>
           r = Inl (HTTPException 500 (str_exn e ex)) \<and>
           cached_video_path w' = cached_video_path w \<and>
           cached_audio_path w' = cached_audio_path w \<and>
           last_access_time w' = last_access_time w \<and>
           path_join AUDIO_CACHE_DIR (get_audio_cache_filename url) \<notin> files w'))"
  (is "(?V \<longrightarrow> ?VC) \<and> (?A \<longrightarrow> ?AC)")
proof (intro conjI impI)
  assume ?V
  then show ?VC using video_failure [of w url e ex now] by simp
next
  assume ?A
  then show ?AC using audio_failure [of w url e ex now] by simp
qed

lemma video_path2:
  "path_join CACHE_DIR (get_cache_filename ''https://x/2'') = ''/tmp/video_cache/2261a33c50b05c275acf523c6e502e53.mp4''"
  by (simp add: video_path_shape md5_url2)

lemma audio_path2:
  "path_join AUDIO_CACHE_DIR (get_audio_cache_filename ''https://x/2'') = ''/tmp/audio_cache/2261a33c50b05c275acf523c6e502e53.mp3''"
  by (simp add: audio_path_shape md5_url2)

lemma video_name2: "get_cache_filename ''https://x/2'' = ''2261a33c50b05c275acf523c6e502e53.mp4''"
  by (simp add: get_cache_filename_def md5_url2)

lemma audio_name2: "get_audio_cache_filename ''https://x/2'' = ''2261a33c50b05c275acf523c6e502e53.mp3''"
  by (simp add: get_audio_cache_filename_def md5_url2)

lemmas example_defs = example_env_def world_one_def ydl_fails_def ydl_writes_def ydl_silent_def
  acquire_video_def acquire_audio_def download_and_extract_ffmpeg_def get_ytdlp_config_def
  ydl_download_def video_cache_lookup_def audio_cache_lookup_def basename_def dirname_def
  default_config_def path_join_def CACHE_DIR_def AUDIO_CACHE_DIR_def Let_def

lemma ex_fail_video_hyp:
  "video_cache_lookup world_one (get_cache_filename ''https://x/2'') = None \<and>
    fst (acquire_video (example_env ydl_fails) ''https://x/2'' (path_join CACHE_DIR (get_cache_filename ''https://x/2'')) world_one)
      = Some (LibraryError ''ERROR: Unsupported URL'')"
  by (simp add: video_name2 example_defs)

lemma ex_fail_audio_hyp:
  "audio_cache_lookup world_one (get_audio_cache_filename ''https://x/2'') = None \<and>
    fst (acquire_audio (example_env ydl_fails) ''https://x/2'' (path_join AUDIO_CACHE_DIR (get_audio_cache_filename ''https://x/2'')) world_one)
      = Some (LibraryError ''ERROR: Unsupported URL'')"
  by (simp add: audio_name2 example_defs)

text \<open>
  C5 at a concrete state: a video is resident, the tool fails on another URL and leaves
  a partial file at the destination.
\<close>

theorem failed_acquisition_keeps_slots_witness:
  "(video_cache_lookup world_one (get_cache_filename ''https://x/2'') = None \<and>
    fst (acquire_video (example_env ydl_fails) ''https://x/2'' (path_join CACHE_DIR (get_cache_filename ''https://x/2'')) world_one)
      = Some (LibraryError ''ERROR: Unsupported URL'')) \<and>
   (audio_cache_lookup world_one (get_audio_cache_filename ''https://x/2'') = None \<and>
    fst (acquire_audio (example_env ydl_fails) ''https://x/2'' (path_join AUDIO_CACHE_DIR (get_audio_cache_filename ''https://x/2'')) world_one)
      = Some (LibraryError ''ERROR: Unsupported URL'')) \<and>
   (case download_video (example_env ydl_fails) ''https://x/2'' 200 world_one of
      (r, w') \<Rightarrow>
        r = Inl (HTTPException 500 ''ERROR: Unsupported URL'') \<and>
        cached_video_path w' = Some ''/tmp/video_cache/2b6a374db3ab8f57f12fc5ebaf42145e.mp4'' \<and>
        last_access_time w' = 100 \<and>
        ''/tmp/video_cache/2261a33c50b05c275acf523c6e502e53.mp4'' \<notin> files w') \<and>
   (case download_audio (example_env ydl_fails) ''https://x/2'' 200 world_one of
      (r, w') \<Rightarrow>
        r = Inl (HTTPException 500 ''ERROR: Unsupported URL'') \<and>
        cached_audio_path w' = None \<and>
        last_access_time w' = 100 \<and>
        ''/tmp/audio_cache/2261a33c50b05c275acf523c6e502e53.mp3'' \<notin> files w')"
  using failed_acquisition_keeps_slots
          [of world_one "''https://x/2''" "example_env ydl_fails" "LibraryError ''ERROR: Unsupported URL''" 200]
        ex_fail_video_hyp ex_fail_audio_hyp
  by (auto simp: video_path2 audio_path2 world_one_def split: prod.splits)

section \<open>Missing output, the two slots, and the sweepers\<close>

lemma video_name1: "get_cache_filename ''https://x/1'' = ''2b6a374db3ab8f57f12fc5ebaf42145e.mp4''"
  by (simp add: get_cache_filename_def md5_url1)

lemma audio_name1: "get_audio_cache_filename ''https://x/1'' = ''2b6a374db3ab8f57f12fc5ebaf42145e.mp3''"
  by (simp add: get_audio_cache_filename_def md5_url1)

text \<open>
  Claim C2 is not what the code does. The tool returns without raising and without
  writing the output file; the handler raises status 404 inside the \<^verbatim>\<open>try\<close>, the
  \<^verbatim>\<open>except Exception\<close> of the same handler catches it, and the client receives status 500
  whose detail is the text of the 404 exception.
\<close>

theorem missing_output_answers_500:
  "fst (download_video (example_env ydl_silent) ''https://x/2'' 200 world_one)
     = Inl (HTTPException 500 ''404: Video download failed'') \<and>
   fst (download_audio (example_env ydl_silent) ''https://x/2'' 200 world_one)
     = Inl (HTTPException 500 ''404: Audio download failed'')"
  by (simp add: download_video_def download_video_try_def download_audio_def
        download_audio_try_def video_name2 audio_name2 example_defs)

lemma download_video_audio_path:
  "cached_audio_path (snd (download_video e url now w)) = cached_audio_path w"
  by (auto simp: download_video_def download_video_try_def Let_def store_video_def
           split: option.splits prod.splits if_splits dest: acquire_video_frame)

lemma download_audio_video_path:
  "cached_video_path (snd (download_audio e url now w)) = cached_video_path w"
  by (auto simp: download_audio_def download_audio_try_def Let_def store_audio_def
           split: option.splits prod.splits if_splits dest: acquire_audio_frame)

text \<open>
  Claim C3, as the code has it. A video request (hit, replace or failure) and a pass of
  the video sweeper leave the audio slot's cached path unchanged, and the other way round.
\<close>

theorem other_kind_path_unchanged:
  "cached_audio_path (snd (download_video e url now w)) = cached_audio_path w \<and>
   cached_audio_path (clean_cache_pass now w) = cached_audio_path w \<and>
   cached_video_path (snd (download_audio e url now w)) = cached_video_path w \<and>
   cached_video_path (clean_audio_cache_pass now w) = cached_video_path w"
  by (simp add: download_video_audio_path download_audio_video_path
        clean_cache_pass_def clean_audio_cache_pass_def split: option.splits)

text \<open>
  Claim C3 as stated fails for the access time: there is one \<^verbatim>\<open>last_access_time\<close> for
  both kinds. With an audio file resident and the time at 100, a pass of the video sweeper
  resets it to 0 and a video hit at time 500 sets it to 500.
\<close>

theorem shared_clock_counterexample:
  "cached_audio_path world_two = Some ''/tmp/audio_cache/2261a33c50b05c275acf523c6e502e53.mp3'' \<and>
   last_access_time world_two = 100 \<and>
   last_access_time (clean_cache_pass 1001 world_two) = 0 \<and>
   last_access_time (snd (download_video (example_env ydl_writes) ''https://x/1'' 500 world_two)) = 500"
  by (simp add: clean_cache_pass_def CACHE_EXPIRY_TIME_def world_two_def
        download_video_def download_video_try_def video_name1 video_cache_lookup_def basename_def
        Let_def)

lemma video_sweep:
  assumes "cached_video_path w = Some p" "p \<noteq> []"
  shows "clean_cache_pass now w =
           (if now - last_access_time w > 15 * 60
            then w\<lparr>files := files w - {p}, cached_video_path := None, last_access_time := 0\<rparr>
            else w)"
  using assms by (simp add: clean_cache_pass_def CACHE_EXPIRY_TIME_def)

lemma audio_sweep:
  assumes "cached_audio_path w = Some p" "p \<noteq> []"
  shows "clean_audio_cache_pass now w =
           (if now - last_access_time w > 15 * 60
            then w\<lparr>files := files w - {p}, cached_audio_path := None, last_access_time := 0\<rparr>
            else w)"
  using assms by (simp add: clean_audio_cache_pass_def CACHE_EXPIRY_TIME_def)

lemma video_hit_then_sweep:
  assumes "video_cache_lookup w (get_cache_filename url) = Some p" "t - now \<le> 15 * 60"
  shows "clean_cache_pass t (snd (download_video e url now w)) = snd (download_video e url now w) \<and>
         cached_video_path (snd (download_video e url now w)) = Some p"
  using video_lookup_SomeD [OF assms(1)] assms(2)
  by (simp add: video_hit [OF assms(1)] clean_cache_pass_def CACHE_EXPIRY_TIME_def)

lemma audio_hit_then_sweep:
  assumes "audio_cache_lookup w (get_audio_cache_filename url) = Some p" "t - now \<le> 15 * 60"
  shows "clean_audio_cache_pass t (snd (download_audio e url now w)) = snd (download_audio e url now w) \<and>
         cached_audio_path (snd (download_audio e url now w)) = Some p"
  using audio_lookup_SomeD [OF assms(1)] assms(2)
  by (simp add: audio_hit [OF assms(1)] clean_audio_cache_pass_def CACHE_EXPIRY_TIME_def)

text \<open>
  Claim C4, as the code has it. The idle clock is the one \<^verbatim>\<open>last_access_time\<close> that both
  kinds share, not a time of the slot's own. With a file resident, a pass of the sweeper at
  time \<open>now\<close> clears the cached path exactly when \<open>now - last_access_time\<close> is greater than
  15 minutes (900 seconds); it then also removes the file and resets the shared time to 0,
  and otherwise changes nothing. After a hit at time \<open>now\<close> a pass at any time \<open>t\<close> with
  \<open>t - now \<le> 900\<close>, the same instant included, changes nothing and the file stays resident.
\<close>

theorem sweep_evicts_iff_idle:
  "(cached_video_path w = Some p \<and> p \<noteq> [] \<longrightarrow>
      (cached_video_path (clean_cache_pass now w) = None \<longleftrightarrow> now - last_access_time w > 15 * 60) \<and>
      clean_cache_pass now w =
        (if now - last_access_time w > 15 * 60
         then w\<lparr>files := files w - {p}, cached_video_path := None, last_access_time := 0\<rparr>
         else w)) \<and>
   (cached_audio_path w = Some p \<and> p \<noteq> [] \<longrightarrow>
      (cached_audio_path (clean_audio_cache_pass now w) = None \<longleftrightarrow> now - last_access_time w > 15 * 60) \<and>
      clean_audio_cache_pass now w =
        (if now - last_access_time w > 15 * 60
         then w\<lparr>files := files w - {p}, cached_audio_path := None, last_access_time := 0\<rparr>
         else w)) \<and>
   (video_cache_lookup w (get_cache_filename url) = Some p \<and> t - now \<le> 15 * 60 \<longrightarrow>
      clean_cache_pass t (snd (download_video e url now w)) = snd (download_video e url now w) \<and>
      cached_video_path (snd (download_video e url now w)) = Some p) \<and>
   (audio_cache_lookup w (get_audio_cache_filename url) = Some p \<and> t - now \<le> 15 * 60 \<longrightarrow>
      clean_audio_cache_pass t (snd (download_audio e url now w)) = snd (download_audio e url now w) \<and>
      cached_audio_path (snd (download_audio e url now w)) = Some p)"
  (is "(?V \<longrightarrow> ?VC) \<and> (?A \<longrightarrow> ?AC) \<and> (?VH \<longrightarrow> ?VHC) \<and> (?AH \<longrightarrow> ?AHC)")
proof -
  have v: "?V \<longrightarrow> ?VC" using video_sweep [of w p now] by simp
  have a: "?A \<longrightarrow> ?AC" using audio_sweep [of w p now] by simp
  have vh: "?VH \<longrightarrow> ?VHC" using video_hit_then_sweep [of w url p t now e] by simp
  have ah: "?AH \<longrightarrow> ?AHC" using audio_hit_then_sweep [of w url p t now e] by simp
  show ?thesis by (rule conjI [OF v conjI [OF a conjI [OF vh ah]]])
qed

text \<open>
  C4 at a concrete state with the access time at 100: a pass at 1000 changes nothing, a
  pass at 1001 evicts, and a hit at 1001 followed by a pass at 1001 keeps the file.
\<close>

theorem sweep_evicts_iff_idle_witness:
  "(cached_video_path world_two = Some ''/tmp/video_cache/2b6a374db3ab8f57f12fc5ebaf42145e.mp4'' \<and>
    cached_audio_path world_two = Some ''/tmp/audio_cache/2261a33c50b05c275acf523c6e502e53.mp3'' \<and>
    last_access_time world_two = 100) \<and>
   (clean_cache_pass 1000 world_two = world_two \<and>
    cached_video_path (clean_cache_pass 1001 world_two) = None \<and>
    ''/tmp/video_cache/2b6a374db3ab8f57f12fc5ebaf42145e.mp4'' \<notin> files (clean_cache_pass 1001 world_two)) \<and>
   (clean_audio_cache_pass 1000 world_two = world_two \<and>
    cached_audio_path (clean_audio_cache_pass 1001 world_two) = None \<and>
    ''/tmp/audio_cache/2261a33c50b05c275acf523c6e502e53.mp3'' \<notin> files (clean_audio_cache_pass 1001 world_two)) \<and>
   (video_cache_lookup world_two (get_cache_filename ''https://x/1'')
      = Some ''/tmp/video_cache/2b6a374db3ab8f57f12fc5ebaf42145e.mp4'' \<and>
    cached_video_path
      (clean_cache_pass 1001 (snd (download_video (example_env ydl_writes) ''https://x/1'' 1001 world_two)))
      = Some ''/tmp/video_cache/2b6a374db3ab8f57f12fc5ebaf42145e.mp4'') \<and>
   (audio_cache_lookup world_two (get_audio_cache_filename ''https://x/2'')
      = Some ''/tmp/audio_cache/2261a33c50b05c275acf523c6e502e53.mp3'' \<and>
    cached_audio_path
      (clean_audio_cache_pass 1001 (snd (download_audio (example_env ydl_writes) ''https://x/2'' 1001 world_two)))
      = Some ''/tmp/audio_cache/2261a33c50b05c275acf523c6e502e53.mp3'')"
proof -
  have res: "cached_video_path world_two = Some ''/tmp/video_cache/2b6a374db3ab8f57f12fc5ebaf42145e.mp4''"
    "cached_audio_path world_two = Some ''/tmp/audio_cache/2261a33c50b05c275acf523c6e502e53.mp3''"
    "last_access_time world_two = 100"
    by (simp_all add: world_two_def)
  have hit: "video_cache_lookup world_two (get_cache_filename ''https://x/1'')
      = Some ''/tmp/video_cache/2b6a374db3ab8f57f12fc5ebaf42145e.mp4''"
    "audio_cache_lookup world_two (get_audio_cache_filename ''https://x/2'')
      = Some ''/tmp/audio_cache/2261a33c50b05c275acf523c6e502e53.mp3''"
    by (simp_all add: video_name1 audio_name2 world_two_def video_cache_lookup_def
          audio_cache_lookup_def basename_def)
  note keep = sweep_evicts_iff_idle
    [of world_two "''/tmp/video_cache/2b6a374db3ab8f57f12fc5ebaf42145e.mp4''" 1000]
  note evict_v = sweep_evicts_iff_idle
    [of world_two "''/tmp/video_cache/2b6a374db3ab8f57f12fc5ebaf42145e.mp4''" 1001
        "''https://x/1''" 1001 "example_env ydl_writes"]
  note evict_a = sweep_evicts_iff_idle
    [of world_two "''/tmp/audio_cache/2261a33c50b05c275acf523c6e502e53.mp3''" 1001
        "''https://x/2''" 1001 "example_env ydl_writes"]
  note keep_a = sweep_evicts_iff_idle
    [of world_two "''/tmp/audio_cache/2261a33c50b05c275acf523c6e502e53.mp3''" 1000]
  from res hit keep have k1: "clean_cache_pass 1000 world_two = world_two" by simp
  from res hit keep_a have k2: "clean_audio_cache_pass 1000 world_two = world_two" by simp
  from res hit evict_v have e1:
    "cached_video_path (clean_cache_pass 1001 world_two) = None"
    "''/tmp/video_cache/2b6a374db3ab8f57f12fc5ebaf42145e.mp4'' \<notin> files (clean_cache_pass 1001 world_two)"
    "cached_video_path
      (clean_cache_pass 1001 (snd (download_video (example_env ydl_writes) ''https://x/1'' 1001 world_two)))
      = Some ''/tmp/video_cache/2b6a374db3ab8f57f12fc5ebaf42145e.mp4''"
    by simp_all
  from res hit evict_a have e2:
    "cached_audio_path (clean_audio_cache_pass 1001 world_two) = None"
    "''/tmp/audio_cache/2261a33c50b05c275acf523c6e502e53.mp3'' \<notin> files (clean_audio_cache_pass 1001 world_two)"
    "cached_audio_path
      (clean_audio_cache_pass 1001 (snd (download_audio (example_env ydl_writes) ''https://x/2'' 1001 world_two)))
      = Some ''/tmp/audio_cache/2261a33c50b05c275acf523c6e502e53.mp3''"
    by simp_all
  from res hit k1 k2 e1 e2 show ?thesis by simp
qed

text \<open>
  Claim C4 as stated fails when the idle time is counted from the slot's own last access.
  The video of \<^verbatim>\<open>https://x/1\<close> was last used at time 100, so at time 1001 it has been idle
  for more than 900 seconds, and a pass of the video sweeper on that state evicts it. If an
  audio request is stored at time 1000 in between, which leaves the video slot's path as it
  was, the same pass at 1001 keeps the video and its file: the audio request has moved the
  shared clock to 1000.
\<close>

theorem sweep_uses_shared_clock_counterexample:
  "cached_video_path world_one = Some ''/tmp/video_cache/2b6a374db3ab8f57f12fc5ebaf42145e.mp4'' \<and>
   last_access_time world_one = 100 \<and>
   (1001 :: real) - 100 > 15 * 60 \<and>
   cached_video_path (clean_cache_pass 1001 world_one) = None \<and>
   fst (download_audio (example_env ydl_writes) ''https://x/1'' 1000 world_one)
     = Inr (FileResponse ''/tmp/audio_cache/2b6a374db3ab8f57f12fc5ebaf42145e.mp3'' ''audio/mpeg''
              ''2b6a374db3ab8f57f12fc5ebaf42145e.mp3'') \<and>
   cached_video_path (snd (download_audio (example_env ydl_writes) ''https://x/1'' 1000 world_one))
     = Some ''/tmp/video_cache/2b6a374db3ab8f57f12fc5ebaf42145e.mp4'' \<and>
   last_access_time (snd (download_audio (example_env ydl_writes) ''https://x/1'' 1000 world_one))
     = 1000 \<and>
   cached_video_path
     (clean_cache_pass 1001
        (snd (download_audio (example_env ydl_writes) ''https://x/1'' 1000 world_one)))
     = Some ''/tmp/video_cache/2b6a374db3ab8f57f12fc5ebaf42145e.mp4'' \<and>
   ''/tmp/video_cache/2b6a374db3ab8f57f12fc5ebaf42145e.mp4''
     \<in> files
         (clean_cache_pass 1001
            (snd (download_audio (example_env ydl_writes) ''https://x/1'' 1000 world_one)))"
proof -
  have req: "download_audio (example_env ydl_writes) ''https://x/1'' 1000 world_one =
     (Inr (FileResponse ''/tmp/audio_cache/2b6a374db3ab8f57f12fc5ebaf42145e.mp3'' ''audio/mpeg''
             ''2b6a374db3ab8f57f12fc5ebaf42145e.mp3''),
      \<lparr>files = {''/tmp/audio_cache/2b6a374db3ab8f57f12fc5ebaf42145e.mp3'',
                ''/config/ffmpeg'', ''/config/yt-dlp.json'',
                ''/tmp/video_cache/2b6a374db3ab8f57f12fc5ebaf42145e.mp4''},
       cached_video_path = Some ''/tmp/video_cache/2b6a374db3ab8f57f12fc5ebaf42145e.mp4'',
       cached_audio_path = Some ''/tmp/audio_cache/2b6a374db3ab8f57f12fc5ebaf42145e.mp3'',
       last_access_time = 1000,
       requests_log = [], ydl_log = [''https://x/1'', ''https://x/1'']\<rparr>)"
    by (simp add: download_audio_def download_audio_try_def store_audio_def audio_name1
          example_defs insert_Diff_if)
  have alone: "cached_video_path (clean_cache_pass 1001 world_one) = None"
    by (simp add: clean_cache_pass_def CACHE_EXPIRY_TIME_def world_one_def)
  show ?thesis
    unfolding req
    using alone by (simp add: clean_cache_pass_def CACHE_EXPIRY_TIME_def world_one_def)
qed

section \<open>Replacing the resident file\<close>

lemma store_video_result:
  assumes "cached_video_path w = Some p1" "p1 \<noteq> p2" "p2 \<in> files w"
  shows "cached_video_path (store_video p2 now w) = Some p2 \<and>
         last_access_time (store_video p2 now w) = now \<and>
         p2 \<in> files (store_video p2 now w) \<and>
         (p1 \<noteq> [] \<longrightarrow> p1 \<notin> files (store_video p2 now w))"
  using assms by (simp add: store_video_def)

lemma store_video_first:
  assumes "cached_video_path w = None" "p2 \<in> files w"
  shows "cached_video_path (store_video p2 now w) = Some p2 \<and>
         last_access_time (store_video p2 now w) = now \<and>
         p2 \<in> files (store_video p2 now w)"
  using assms by (simp add: store_video_def)

lemma store_audio_result:
  assumes "cached_audio_path w = Some p1" "p1 \<noteq> p2" "p2 \<in> files w"
  shows "cached_audio_path (store_audio p2 now w) = Some p2 \<and>
         last_access_time (store_audio p2 now w) = now \<and>
         p2 \<in> files (store_audio p2 now w) \<and>
         (p1 \<noteq> [] \<longrightarrow> p1 \<notin> files (store_audio p2 now w))"
  using assms by (simp add: store_audio_def)

lemma store_audio_first:
  assumes "cached_audio_path w = None" "p2 \<in> files w"
  shows "cached_audio_path (store_audio p2 now w) = Some p2 \<and>
         last_access_time (store_audio p2 now w) = now \<and>
         p2 \<in> files (store_audio p2 now w)"
  using assms by (simp add: store_audio_def)

lemma video_path_nonempty: "path_join CACHE_DIR (get_cache_filename url) \<noteq> []"
  by (simp add: video_path_shape)

lemma audio_path_nonempty: "path_join AUDIO_CACHE_DIR (get_audio_cache_filename url) \<noteq> []"
  by (simp add: audio_path_shape)

lemma video_replace:
  assumes res: "cached_video_path w = Some p1" "p1 \<noteq> []"
    and diff: "basename p1 \<noteq> get_cache_filename url"
    and acq: "fst (acquire_video e url (path_join CACHE_DIR (get_cache_filename url)) w) = None"
    and out: "path_join CACHE_DIR (get_cache_filename url)
                \<in> files (snd (acquire_video e url (path_join CACHE_DIR (get_cache_filename url)) w))"
  shows "case download_video e url now w of
           (r, w') \<Rightarrow>
             r = Inr (FileResponse (path_join CACHE_DIR (get_cache_filename url)) ''video/mp4''
                        (get_cache_filename url)) \<and>
             p1 \<notin> files w' \<and>
             video_cache_lookup w' (basename p1) = None \<and>
             cached_video_path w' = Some (path_join CACHE_DIR (get_cache_filename url)) \<and>
             path_join CACHE_DIR (get_cache_filename url) \<in> files w' \<and>
             video_cache_lookup w' (get_cache_filename url)
               = Some (path_join CACHE_DIR (get_cache_filename url)) \<and>
             last_access_time w' = now"
proof -
  let ?p2 = "path_join CACHE_DIR (get_cache_filename url)"
  obtain w1 where a: "acquire_video e url ?p2 w = (None, w1)"
    using acq by (cases "acquire_video e url ?p2 w") auto
  have miss: "video_cache_lookup w (get_cache_filename url) = None"
    using res diff by (simp add: video_cache_lookup_def)
  have in1: "?p2 \<in> files w1" using out a by simp
  have c1: "cached_video_path w1 = Some p1" using acquire_video_frame [OF a] res by simp
  have ne: "p1 \<noteq> ?p2" by (rule video_miss_new_path [OF miss res])
  note st = store_video_result [OF c1 ne in1, of now]
  have look: "video_cache_lookup (store_video ?p2 now w1) (basename p1) = None"
    "video_cache_lookup (store_video ?p2 now w1) (get_cache_filename url) = Some ?p2"
    using st diff video_path_basename [of url] video_path_nonempty [of url]
    by (auto simp: video_cache_lookup_def)
  show ?thesis
    using st res look by (simp add: video_miss_success [OF miss a in1])
qed

lemma audio_replace:
  assumes res: "cached_audio_path w = Some p1" "p1 \<noteq> []"
    and diff: "basename p1 \<noteq> get_audio_cache_filename url"
    and acq: "fst (acquire_audio e url (path_join AUDIO_CACHE_DIR (get_audio_cache_filename url)) w) = None"
    and out: "path_join AUDIO_CACHE_DIR (get_audio_cache_filename url)
                \<in> files (snd (acquire_audio e url (path_join AUDIO_CACHE_DIR (get_audio_cache_filename url)) w))"
  shows "case download_audio e url now w of
           (r, w') \<Rightarrow>
             r = Inr (FileResponse (path_join AUDIO_CACHE_DIR (get_audio_cache_filename url)) ''audio/mpeg''
                        (get_audio_cache_filename url)) \<and>
             p1 \<notin> files w' \<and>
             audio_cache_lookup w' (basename p1) = None \<and>
             cached_audio_path w' = Some (path_join AUDIO_CACHE_DIR (get_audio_cache_filename url)) \<and>
             path_join AUDIO_CACHE_DIR (get_audio_cache_filename url) \<in> files w' \<and>
             audio_cache_lookup w' (get_audio_cache_filename url)
               = Some (path_join AUDIO_CACHE_DIR (get_audio_cache_filename url)) \<and>
             last_access_time w' = now"
proof -
  let ?p2 = "path_join AUDIO_CACHE_DIR (get_audio_cache_filename url)"
  obtain w1 where a: "acquire_audio e url ?p2 w = (None, w1)"
    using acq by (cases "acquire_audio e url ?p2 w") auto
  have miss: "audio_cache_lookup w (get_audio_cache_filename url) = None"
    using res diff by (simp add: audio_cache_lookup_def)
  have in1: "?p2 \<in> files w1" using out a by simp
  have c1: "cached_audio_path w1 = Some p1" using acquire_audio_frame [OF a] res by simp
  have ne: "p1 \<noteq> ?p2" by (rule audio_miss_new_path [OF miss res])
  note st = store_audio_result [OF c1 ne in1, of now]
  have look: "audio_cache_lookup (store_audio ?p2 now w1) (basename p1) = None"
    "audio_cache_lookup (store_audio ?p2 now w1) (get_audio_cache_filename url) = Some ?p2"
    using st diff audio_path_basename [of url] audio_path_nonempty [of url]
    by (auto simp: audio_cache_lookup_def)
  show ?thesis
    using st res look by (simp add: audio_miss_success [OF miss a in1])
qed

text \<open>
  Claim C6. The slot holds the non-empty path \<open>p1\<close>, the request is for a different
  file name, the acquisition raises nothing and the output exists. Then the handler answers
  with the new file, \<open>p1\<close> no longer exists, a lookup of the old name misses, and the slot
  holds the new path, which exists and is found by a lookup of the new name.
\<close>

theorem replace_evicts_previous:
  "(cached_video_path w = Some p1 \<and> p1 \<noteq> [] \<and> basename p1 \<noteq> get_cache_filename url \<and>
    fst (acquire_video e url (path_join CACHE_DIR (get_cache_filename url)) w) = None \<and>
    path_join CACHE_DIR (get_cache_filename url)
      \<in> files (snd (acquire_video e url (path_join CACHE_DIR (get_cache_filename url)) w)) \<longrightarrow>
    (case download_video e url now w of
       (r, w') \<Rightarrow>
         r = Inr (FileResponse (path_join CACHE_DIR (get_cache_filename url)) ''video/mp4''
                    (get_cache_filename url)) \<and>
         p1 \<notin> files w' \<and>
         video_cache_lookup w' (basename p1) = None \<and>
         cached_video_path w' = Some (path_join CACHE_DIR (get_cache_filename url)) \<and>
         path_join CACHE_DIR (get_cache_filename url) \<in> files w' \<and>
         video_cache_lookup w' (get_cache_filename url)
           = Some (path_join CACHE_DIR (get_cache_filename url)) \<and>
         last_access_time w' = now)) \<and>
   (cached_audio_path w = Some p1 \<and> p1 \<noteq> [] \<and> basename p1 \<noteq> get_audio_cache_filename url \<and>
    fst (acquire_audio e url (path_join AUDIO_CACHE_DIR (get_audio_cache_filename url)) w) = None \<and>
    path_join AUDIO_CACHE_DIR (get_audio_cache_filename url)
      \<in> files (snd (acquire_audio e url (path_join AUDIO_CACHE_DIR (get_audio_cache_filename url)) w)) \<longrightarrow>
    (case download_audio e url now w of
       (r, w') \<Rightarrow>
         r = Inr (FileResponse (path_join AUDIO_CACHE_DIR (get_audio_cache_filename url)) ''audio/mpeg''
                    (get_audio_cache_filename url)) \<and>
         p1 \<notin> files w' \<and>
         audio_cache_lookup w' (basename p1) = None \<and>
         cached_audio_path w' = Some (path_join AUDIO_CACHE_DIR (get_audio_cache_filename url)) \<and>
         path_join AUDIO_CACHE_DIR (get_audio_cache_filename url) \<in> files w' \<and>
         audio_cache_lookup w' (get_audio_cache_filename url)
           = Some (path_join AUDIO_CACHE_DIR (get_audio_cache_filename url)) \<and>
         last_access_time w' = now))"
  (is "(?V \<longrightarrow> ?VC) \<and> (?A \<longrightarrow> ?AC)")
proof -
  have v: "?V \<longrightarrow> ?VC" using video_replace [of w p1 url e now] by simp
  have a: "?A \<longrightarrow> ?AC" using audio_replace [of w p1 url e now] by simp
  show ?thesis by (rule conjI [OF v a])
qed

lemma video_path1:
  "path_join CACHE_DIR (get_cache_filename ''https://x/1'') = ''/tmp/video_cache/2b6a374db3ab8f57f12fc5ebaf42145e.mp4''"
  by (simp add: video_path_shape md5_url1)

lemma audio_path1:
  "path_join AUDIO_CACHE_DIR (get_audio_cache_filename ''https://x/1'') = ''/tmp/audio_cache/2b6a374db3ab8f57f12fc5ebaf42145e.mp3''"
  by (simp add: audio_path_shape md5_url1)

lemma ex_replace_video_acquire:
  "acquire_video (example_env ydl_writes) ''https://x/2''
      ''/tmp/video_cache/2261a33c50b05c275acf523c6e502e53.mp4'' world_two
    = (None, world_two\<lparr>files := insert ''/tmp/video_cache/2261a33c50b05c275acf523c6e502e53.mp4'' (files world_two),
                         ydl_log := ydl_log world_two @ [''https://x/2'']\<rparr>)"
  by (simp add: example_defs world_two_def)

lemma ex_replace_audio_acquire:
  "acquire_audio (example_env ydl_writes) ''https://x/1''
      ''/tmp/audio_cache/2b6a374db3ab8f57f12fc5ebaf42145e.mp3'' world_two
    = (None, world_two\<lparr>files := insert ''/tmp/audio_cache/2b6a374db3ab8f57f12fc5ebaf42145e.mp3'' (files world_two),
                         ydl_log := ydl_log world_two @ [''https://x/1'']\<rparr>)"
  by (simp add: example_defs world_two_def)

text \<open>
  C6 at a concrete state: both slots hold a file and each receives a request for another
  URL.
\<close>

theorem replace_evicts_previous_witness:
  "(cached_video_path world_two = Some ''/tmp/video_cache/2b6a374db3ab8f57f12fc5ebaf42145e.mp4'' \<and>
    basename ''/tmp/video_cache/2b6a374db3ab8f57f12fc5ebaf42145e.mp4'' \<noteq> get_cache_filename ''https://x/2'' \<and>
    fst (acquire_video (example_env ydl_writes) ''https://x/2''
           (path_join CACHE_DIR (get_cache_filename ''https://x/2'')) world_two) = None) \<and>
   (case download_video (example_env ydl_writes) ''https://x/2'' 200 world_two of
      (r, w') \<Rightarrow>
        r = Inr (FileResponse ''/tmp/video_cache/2261a33c50b05c275acf523c6e502e53.mp4'' ''video/mp4''
                   ''2261a33c50b05c275acf523c6e502e53.mp4'') \<and>
        ''/tmp/video_cache/2b6a374db3ab8f57f12fc5ebaf42145e.mp4'' \<notin> files w' \<and>
        video_cache_lookup w' ''2b6a374db3ab8f57f12fc5ebaf42145e.mp4'' = None \<and>
        cached_video_path w' = Some ''/tmp/video_cache/2261a33c50b05c275acf523c6e502e53.mp4'' \<and>
        ''/tmp/video_cache/2261a33c50b05c275acf523c6e502e53.mp4'' \<in> files w') \<and>
   (cached_audio_path world_two = Some ''/tmp/audio_cache/2261a33c50b05c275acf523c6e502e53.mp3'' \<and>
    basename ''/tmp/audio_cache/2261a33c50b05c275acf523c6e502e53.mp3'' \<noteq> get_audio_cache_filename ''https://x/1'' \<and>
    fst (acquire_audio (example_env ydl_writes) ''https://x/1''
           (path_join AUDIO_CACHE_DIR (get_audio_cache_filename ''https://x/1'')) world_two) = None) \<and>
   (case download_audio (example_env ydl_writes) ''https://x/1'' 200 world_two of
      (r, w') \<Rightarrow>
        r = Inr (FileResponse ''/tmp/audio_cache/2b6a374db3ab8f57f12fc5ebaf42145e.mp3'' ''audio/mpeg''
                   ''2b6a374db3ab8f57f12fc5ebaf42145e.mp3'') \<and>
        ''/tmp/audio_cache/2261a33c50b05c275acf523c6e502e53.mp3'' \<notin> files w' \<and>
        audio_cache_lookup w' ''2261a33c50b05c275acf523c6e502e53.mp3'' = None \<and>
        cached_audio_path w' = Some ''/tmp/audio_cache/2b6a374db3ab8f57f12fc5ebaf42145e.mp3'' \<and>
        ''/tmp/audio_cache/2b6a374db3ab8f57f12fc5ebaf42145e.mp3'' \<in> files w')"
proof -
  have res: "cached_video_path world_two = Some ''/tmp/video_cache/2b6a374db3ab8f57f12fc5ebaf42145e.mp4''"
    "cached_audio_path world_two = Some ''/tmp/audio_cache/2261a33c50b05c275acf523c6e502e53.mp3''"
    by (simp_all add: world_two_def)
  have names: "basename ''/tmp/video_cache/2b6a374db3ab8f57f12fc5ebaf42145e.mp4'' = ''2b6a374db3ab8f57f12fc5ebaf42145e.mp4''"
    "basename ''/tmp/audio_cache/2261a33c50b05c275acf523c6e502e53.mp3'' = ''2261a33c50b05c275acf523c6e502e53.mp3''"
    by (simp_all add: basename_def)
  note th = replace_evicts_previous
    [of world_two "''/tmp/video_cache/2b6a374db3ab8f57f12fc5ebaf42145e.mp4''" "''https://x/2''"
        "example_env ydl_writes" 200]
  note ta = replace_evicts_previous
    [of world_two "''/tmp/audio_cache/2261a33c50b05c275acf523c6e502e53.mp3''" "''https://x/1''"
        "example_env ydl_writes" 200]
  have v: "case download_video (example_env ydl_writes) ''https://x/2'' 200 world_two of
      (r, w') \<Rightarrow>
        r = Inr (FileResponse ''/tmp/video_cache/2261a33c50b05c275acf523c6e502e53.mp4'' ''video/mp4''
                   ''2261a33c50b05c275acf523c6e502e53.mp4'') \<and>
        ''/tmp/video_cache/2b6a374db3ab8f57f12fc5ebaf42145e.mp4'' \<notin> files w' \<and>
        video_cache_lookup w' ''2b6a374db3ab8f57f12fc5ebaf42145e.mp4'' = None \<and>
        cached_video_path w' = Some ''/tmp/video_cache/2261a33c50b05c275acf523c6e502e53.mp4'' \<and>
        ''/tmp/video_cache/2261a33c50b05c275acf523c6e502e53.mp4'' \<in> files w'"
    using th res names
    by (simp add: video_name2 path_join_def CACHE_DIR_def ex_replace_video_acquire split: prod.splits)
  have a: "case download_audio (example_env ydl_writes) ''https://x/1'' 200 world_two of
      (r, w') \<Rightarrow>
        r = Inr (FileResponse ''/tmp/audio_cache/2b6a374db3ab8f57f12fc5ebaf42145e.mp3'' ''audio/mpeg''
                   ''2b6a374db3ab8f57f12fc5ebaf42145e.mp3'') \<and>
        ''/tmp/audio_cache/2261a33c50b05c275acf523c6e502e53.mp3'' \<notin> files w' \<and>
        audio_cache_lookup w' ''2261a33c50b05c275acf523c6e502e53.mp3'' = None \<and>
        cached_audio_path w' = Some ''/tmp/audio_cache/2b6a374db3ab8f57f12fc5ebaf42145e.mp3'' \<and>
        ''/tmp/audio_cache/2b6a374db3ab8f57f12fc5ebaf42145e.mp3'' \<in> files w'"
    using ta res names
    by (simp add: audio_name1 path_join_def AUDIO_CACHE_DIR_def ex_replace_audio_acquire split: prod.splits)
  show ?thesis
    using v a res names
    by (simp add: video_name2 audio_name1 path_join_def CACHE_DIR_def AUDIO_CACHE_DIR_def
          ex_replace_video_acquire ex_replace_audio_acquire)
qed

section \<open>The same request again\<close>

lemma video_miss_cases:
  assumes miss: "video_cache_lookup w (get_cache_filename url) = None"
  obtains
    (error) ex w1 where
      "acquire_video e url (path_join CACHE_DIR (get_cache_filename url)) w = (Some ex, w1)"
  | (missing) w1 where
      "acquire_video e url (path_join CACHE_DIR (get_cache_filename url)) w = (None, w1)"
      "path_join CACHE_DIR (get_cache_filename url) \<notin> files w1"
  | (success) w1 where
      "acquire_video e url (path_join CACHE_DIR (get_cache_filename url)) w = (None, w1)"
      "path_join CACHE_DIR (get_cache_filename url) \<in> files w1"
  by (cases "acquire_video e url (path_join CACHE_DIR (get_cache_filename url)) w") auto

lemma audio_miss_cases:
  assumes miss: "audio_cache_lookup w (get_audio_cache_filename url) = None"
  obtains
    (error) ex w1 where
      "acquire_audio e url (path_join AUDIO_CACHE_DIR (get_audio_cache_filename url)) w = (Some ex, w1)"
  | (missing) w1 where
      "acquire_audio e url (path_join AUDIO_CACHE_DIR (get_audio_cache_filename url)) w = (None, w1)"
      "path_join AUDIO_CACHE_DIR (get_audio_cache_filename url) \<notin> files w1"
  | (success) w1 where
      "acquire_audio e url (path_join AUDIO_CACHE_DIR (get_audio_cache_filename url)) w = (None, w1)"
      "path_join AUDIO_CACHE_DIR (get_audio_cache_filename url) \<in> files w1"
  by (cases "acquire_audio e url (path_join AUDIO_CACHE_DIR (get_audio_cache_filename url)) w") auto

lemma store_video_any:
  assumes "p2 \<in> files w" "p2 \<noteq> []" "\<And>p1. cached_video_path w = Some p1 \<Longrightarrow> p1 \<noteq> [] \<Longrightarrow> p1 \<noteq> p2"
  shows "cached_video_path (store_video p2 now w) = Some p2 \<and> p2 \<in> files (store_video p2 now w)"
  using assms by (auto simp: store_video_def split: option.splits)

lemma store_audio_any:
  assumes "p2 \<in> files w" "p2 \<noteq> []" "\<And>p1. cached_audio_path w = Some p1 \<Longrightarrow> p1 \<noteq> [] \<Longrightarrow> p1 \<noteq> p2"
  shows "cached_audio_path (store_audio p2 now w) = Some p2 \<and> p2 \<in> files (store_audio p2 now w)"
  using assms by (auto simp: store_audio_def split: option.splits)

lemma video_repeat:
  assumes miss: "video_cache_lookup w (get_cache_filename url) = None"
    and ok: "fst (download_video e url t1 w) = Inr r"
  shows "download_video e' url t2 (snd (download_video e url t1 w)) =
           (Inr (FileResponse (path_join CACHE_DIR (get_cache_filename url)) ''video/mp4''
                   (get_cache_filename url)),
            (snd (download_video e url t1 w))\<lparr>last_access_time := t2\<rparr>) \<and>
         path_join CACHE_DIR (get_cache_filename url) \<in> files (snd (download_video e url t1 w))"
proof -
  let ?p2 = "path_join CACHE_DIR (get_cache_filename url)"
  from miss show ?thesis
  proof (cases rule: video_miss_cases [where e = e])
    case (error ex w1)
    with ok show ?thesis by (simp add: video_miss_error [OF miss error])
  next
    case (missing w1)
    with ok show ?thesis by (simp add: video_miss_missing [OF miss missing])
  next
    case (success w1)
    have fr: "cached_video_path w1 = cached_video_path w"
      using acquire_video_frame [OF success(1)] by simp
    have "cached_video_path (store_video ?p2 t1 w1) = Some ?p2 \<and> ?p2 \<in> files (store_video ?p2 t1 w1)"
    proof (rule store_video_any [OF success(2) video_path_nonempty])
      fix p1 assume "cached_video_path w1 = Some p1" "p1 \<noteq> []"
      then show "p1 \<noteq> ?p2" using video_miss_new_path [OF miss] fr by simp
    qed
    moreover from this have "video_cache_lookup (store_video ?p2 t1 w1) (get_cache_filename url) = Some ?p2"
      using video_path_basename [of url] video_path_nonempty [of url]
      by (simp add: video_cache_lookup_def)
    ultimately show ?thesis
      by (simp add: video_miss_success [OF miss success] video_hit)
  qed
qed

lemma audio_repeat:
  assumes miss: "audio_cache_lookup w (get_audio_cache_filename url) = None"
    and ok: "fst (download_audio e url t1 w) = Inr r"
  shows "download_audio e' url t2 (snd (download_audio e url t1 w)) =
           (Inr (FileResponse (path_join AUDIO_CACHE_DIR (get_audio_cache_filename url)) ''audio/mpeg''
                   (get_audio_cache_filename url)),
            (snd (download_audio e url t1 w))\<lparr>last_access_time := t2\<rparr>) \<and>
         path_join AUDIO_CACHE_DIR (get_audio_cache_filename url) \<in> files (snd (download_audio e url t1 w))"
proof -
  let ?p2 = "path_join AUDIO_CACHE_DIR (get_audio_cache_filename url)"
  from miss show ?thesis
  proof (cases rule: audio_miss_cases [where e = e])
    case (error ex w1)
    with ok show ?thesis by (simp add: audio_miss_error [OF miss error])
  next
    case (missing w1)
    with ok show ?thesis by (simp add: audio_miss_missing [OF miss missing])
  next
    case (success w1)
    have fr: "cached_audio_path w1 = cached_audio_path w"
      using acquire_audio_frame [OF success(1)] by simp
    have "cached_audio_path (store_audio ?p2 t1 w1) = Some ?p2 \<and> ?p2 \<in> files (store_audio ?p2 t1 w1)"
    proof (rule store_audio_any [OF success(2) audio_path_nonempty])
      fix p1 assume "cached_audio_path w1 = Some p1" "p1 \<noteq> []"
      then show "p1 \<noteq> ?p2" using audio_miss_new_path [OF miss] fr by simp
    qed
    moreover from this have "audio_cache_lookup (store_audio ?p2 t1 w1) (get_audio_cache_filename url) = Some ?p2"
      using audio_path_basename [of url] audio_path_nonempty [of url]
      by (simp add: audio_cache_lookup_def)
    ultimately show ?thesis
      by (simp add: audio_miss_success [OF miss success] audio_hit)
  qed
qed

text \<open>
  Claim C7. After a miss that was answered with a file, a second request for the same
  URL, at any time and whatever the surroundings would do, is answered with the same path;
  the state is the one after the first request with only the access time set to the time of
  the second request (so nothing was downloaded), and the file exists.
\<close>

theorem repeated_request_is_hit:
  "(video_cache_lookup w (get_cache_filename url) = None \<and>
    fst (download_video e url t1 w) = Inr r \<longrightarrow>
      download_video e' url t2 (snd (download_video e url t1 w)) =
        (Inr (FileResponse (path_join CACHE_DIR (get_cache_filename url)) ''video/mp4''
                (get_cache_filename url)),
         (snd (download_video e url t1 w))\<lparr>last_access_time := t2\<rparr>) \<and>
      path_join CACHE_DIR (get_cache_filename url) \<in> files (snd (download_video e url t1 w))) \<and>
   (audio_cache_lookup w (get_audio_cache_filename url) = None \<and>
    fst (download_audio e url t1 w) = Inr r \<longrightarrow>
      download_audio e' url t2 (snd (download_audio e url t1 w)) =
        (Inr (FileResponse (path_join AUDIO_CACHE_DIR (get_audio_cache_filename url)) ''audio/mpeg''
                (get_audio_cache_filename url)),
         (snd (download_audio e url t1 w))\<lparr>last_access_time := t2\<rparr>) \<and>
      path_join AUDIO_CACHE_DIR (get_audio_cache_filename url) \<in> files (snd (download_audio e url t1 w)))"
  (is "(?V \<longrightarrow> ?VC) \<and> (?A \<longrightarrow> ?AC)")
proof -
  have v: "?V \<longrightarrow> ?VC" using video_repeat [of w url e t1 r e' t2] by simp
  have a: "?A \<longrightarrow> ?AC" using audio_repeat [of w url e t1 r e' t2] by simp
  show ?thesis by (rule conjI [OF v a])
qed

lemmas handler_defs = download_video_def download_video_try_def download_audio_def
  download_audio_try_def store_video_def store_audio_def

lemma ex_first_video:
  "download_video (example_env ydl_writes) ''https://x/2'' 200 world_one =
     (Inr (FileResponse ''/tmp/video_cache/2261a33c50b05c275acf523c6e502e53.mp4'' ''video/mp4''
             ''2261a33c50b05c275acf523c6e502e53.mp4''),
      \<lparr>files = {''/tmp/video_cache/2261a33c50b05c275acf523c6e502e53.mp4'',
                ''/config/ffmpeg'', ''/config/yt-dlp.json''},
       cached_video_path = Some ''/tmp/video_cache/2261a33c50b05c275acf523c6e502e53.mp4'',
       cached_audio_path = None, last_access_time = 200,
       requests_log = [], ydl_log = [''https://x/1'', ''https://x/2'']\<rparr>)"
  by (simp add: handler_defs video_name2 example_defs insert_Diff_if)

lemma ex_first_audio:
  "download_audio (example_env ydl_writes) ''https://x/1'' 200 world_one =
     (Inr (FileResponse ''/tmp/audio_cache/2b6a374db3ab8f57f12fc5ebaf42145e.mp3'' ''audio/mpeg''
             ''2b6a374db3ab8f57f12fc5ebaf42145e.mp3''),
      \<lparr>files = {''/tmp/audio_cache/2b6a374db3ab8f57f12fc5ebaf42145e.mp3'',
                ''/config/ffmpeg'', ''/config/yt-dlp.json'',
                ''/tmp/video_cache/2b6a374db3ab8f57f12fc5ebaf42145e.mp4''},
       cached_video_path = Some ''/tmp/video_cache/2b6a374db3ab8f57f12fc5ebaf42145e.mp4'',
       cached_audio_path = Some ''/tmp/audio_cache/2b6a374db3ab8f57f12fc5ebaf42145e.mp3'',
       last_access_time = 200,
       requests_log = [], ydl_log = [''https://x/1'', ''https://x/1'']\<rparr>)"
  by (simp add: handler_defs audio_name1 example_defs insert_Diff_if)

text \<open>
  C7 at a concrete state; the second request runs with a tool that would fail if it
  were called.
\<close>

theorem repeated_request_is_hit_witness:
  "(video_cache_lookup world_one (get_cache_filename ''https://x/2'') = None \<and>
    fst (download_video (example_env ydl_writes) ''https://x/2'' 200 world_one)
      = Inr (FileResponse ''/tmp/video_cache/2261a33c50b05c275acf523c6e502e53.mp4'' ''video/mp4''
               ''2261a33c50b05c275acf523c6e502e53.mp4'')) \<and>
   download_video (example_env ydl_fails) ''https://x/2'' 300
       (snd (download_video (example_env ydl_writes) ''https://x/2'' 200 world_one))
     = (Inr (FileResponse ''/tmp/video_cache/2261a33c50b05c275acf523c6e502e53.mp4'' ''video/mp4''
               ''2261a33c50b05c275acf523c6e502e53.mp4''),
        \<lparr>files = {''/tmp/video_cache/2261a33c50b05c275acf523c6e502e53.mp4'',
                  ''/config/ffmpeg'', ''/config/yt-dlp.json''},
         cached_video_path = Some ''/tmp/video_cache/2261a33c50b05c275acf523c6e502e53.mp4'',
         cached_audio_path = None, last_access_time = 300,
         requests_log = [], ydl_log = [''https://x/1'', ''https://x/2'']\<rparr>) \<and>
   (audio_cache_lookup world_one (get_audio_cache_filename ''https://x/1'') = None \<and>
    fst (download_audio (example_env ydl_writes) ''https://x/1'' 200 world_one)
      = Inr (FileResponse ''/tmp/audio_cache/2b6a374db3ab8f57f12fc5ebaf42145e.mp3'' ''audio/mpeg''
               ''2b6a374db3ab8f57f12fc5ebaf42145e.mp3'')) \<and>
   download_audio (example_env ydl_fails) ''https://x/1'' 300
       (snd (download_audio (example_env ydl_writes) ''https://x/1'' 200 world_one))
     = (Inr (FileResponse ''/tmp/audio_cache/2b6a374db3ab8f57f12fc5ebaf42145e.mp3'' ''audio/mpeg''
               ''2b6a374db3ab8f57f12fc5ebaf42145e.mp3''),
        \<lparr>files = {''/tmp/audio_cache/2b6a374db3ab8f57f12fc5ebaf42145e.mp3'',
                  ''/config/ffmpeg'', ''/config/yt-dlp.json'',
                  ''/tmp/video_cache/2b6a374db3ab8f57f12fc5ebaf42145e.mp4''},
         cached_video_path = Some ''/tmp/video_cache/2b6a374db3ab8f57f12fc5ebaf42145e.mp4'',
         cached_audio_path = Some ''/tmp/audio_cache/2b6a374db3ab8f57f12fc5ebaf42145e.mp3'',
         last_access_time = 300,
         requests_log = [], ydl_log = [''https://x/1'', ''https://x/1'']\<rparr>)"
proof -
  have miss: "video_cache_lookup world_one (get_cache_filename ''https://x/2'') = None"
    "audio_cache_lookup world_one (get_audio_cache_filename ''https://x/1'') = None"
    by (simp_all add: video_name2 audio_name1 world_one_def video_cache_lookup_def
          audio_cache_lookup_def basename_def)
  note v = repeated_request_is_hit
    [of world_one "''https://x/2''" "example_env ydl_writes" 200
        "FileResponse ''/tmp/video_cache/2261a33c50b05c275acf523c6e502e53.mp4'' ''video/mp4''
               ''2261a33c50b05c275acf523c6e502e53.mp4''" "example_env ydl_fails" 300]
  note a = repeated_request_is_hit
    [of world_one "''https://x/1''" "example_env ydl_writes" 200
        "FileResponse ''/tmp/audio_cache/2b6a374db3ab8f57f12fc5ebaf42145e.mp3'' ''audio/mpeg''
               ''2b6a374db3ab8f57f12fc5ebaf42145e.mp3''" "example_env ydl_fails" 300]
  have hv: "download_video (example_env ydl_fails) ''https://x/2'' 300
       (snd (download_video (example_env ydl_writes) ''https://x/2'' 200 world_one))
     = (Inr (FileResponse ''/tmp/video_cache/2261a33c50b05c275acf523c6e502e53.mp4'' ''video/mp4''
               ''2261a33c50b05c275acf523c6e502e53.mp4''),
        \<lparr>files = {''/tmp/video_cache/2261a33c50b05c275acf523c6e502e53.mp4'',
                  ''/config/ffmpeg'', ''/config/yt-dlp.json''},
         cached_video_path = Some ''/tmp/video_cache/2261a33c50b05c275acf523c6e502e53.mp4'',
         cached_audio_path = None, last_access_time = 300,
         requests_log = [], ydl_log = [''https://x/1'', ''https://x/2'']\<rparr>)"
    using v miss(1) by (simp add: ex_first_video video_name2 path_join_def CACHE_DIR_def)
  have ha: "download_audio (example_env ydl_fails) ''https://x/1'' 300
       (snd (download_audio (example_env ydl_writes) ''https://x/1'' 200 world_one))
     = (Inr (FileResponse ''/tmp/audio_cache/2b6a374db3ab8f57f12fc5ebaf42145e.mp3'' ''audio/mpeg''
               ''2b6a374db3ab8f57f12fc5ebaf42145e.mp3''),
        \<lparr>files = {''/tmp/audio_cache/2b6a374db3ab8f57f12fc5ebaf42145e.mp3'',
                  ''/config/ffmpeg'', ''/config/yt-dlp.json'',
                  ''/tmp/video_cache/2b6a374db3ab8f57f12fc5ebaf42145e.mp4''},
         cached_video_path = Some ''/tmp/video_cache/2b6a374db3ab8f57f12fc5ebaf42145e.mp4'',
         cached_audio_path = Some ''/tmp/audio_cache/2b6a374db3ab8f57f12fc5ebaf42145e.mp3'',
         last_access_time = 300,
         requests_log = [], ydl_log = [''https://x/1'', ''https://x/1'']\<rparr>)"
    using a miss(2) by (simp add: ex_first_audio audio_name1 path_join_def AUDIO_CACHE_DIR_def)
  show ?thesis
    using miss hv ha by (simp add: ex_first_video ex_first_audio)
qed

section \<open>A miss leaves the resident file\<close>

lemma video_miss_resident:
  assumes res: "cached_video_path w = Some p1" "p1 \<noteq> []"
    and diff: "basename p1 \<noteq> get_cache_filename url"
  shows "video_cache_lookup w (get_cache_filename url) = None \<and>
         (case download_video e url now w of
            (Inl ex, w') \<Rightarrow>
              cached_video_path w' = Some p1 \<and>
              last_access_time w' = last_access_time w \<and>
              files w' = files (snd (acquire_video e url (path_join CACHE_DIR (get_cache_filename url)) w))
                           - {path_join CACHE_DIR (get_cache_filename url)} \<and>
              p1 \<noteq> path_join CACHE_DIR (get_cache_filename url)
          | (Inr r, w') \<Rightarrow>
              fst (acquire_video e url (path_join CACHE_DIR (get_cache_filename url)) w) = None \<and>
              path_join CACHE_DIR (get_cache_filename url)
                \<in> files (snd (acquire_video e url (path_join CACHE_DIR (get_cache_filename url)) w)) \<and>
              cached_video_path w' = Some (path_join CACHE_DIR (get_cache_filename url)))"
proof -
  let ?p2 = "path_join CACHE_DIR (get_cache_filename url)"
  have miss: "video_cache_lookup w (get_cache_filename url) = None"
    using res diff by (simp add: video_cache_lookup_def)
  have ne: "p1 \<noteq> ?p2" by (rule video_miss_new_path [OF miss res])
  from miss have "case download_video e url now w of
            (Inl ex, w') \<Rightarrow>
              cached_video_path w' = Some p1 \<and>
              last_access_time w' = last_access_time w \<and>
              files w' = files (snd (acquire_video e url ?p2 w)) - {?p2} \<and>
              p1 \<noteq> ?p2
          | (Inr r, w') \<Rightarrow>
              fst (acquire_video e url ?p2 w) = None \<and>
              ?p2 \<in> files (snd (acquire_video e url ?p2 w)) \<and>
              cached_video_path w' = Some ?p2"
  proof (cases rule: video_miss_cases [where e = e])
    case (error ex w1)
    then show ?thesis
      using acquire_video_frame [OF error] res ne
      by (simp add: video_miss_error [OF miss error])
  next
    case (missing w1)
    then show ?thesis
      using acquire_video_frame [OF missing(1)] res ne
      by (simp add: video_miss_missing [OF miss missing])
  next
    case (success w1)
    then show ?thesis
      by (simp add: video_miss_success [OF miss success] store_video_def)
  qed
  with miss show ?thesis by simp
qed

lemma audio_miss_resident:
  assumes res: "cached_audio_path w = Some p1" "p1 \<noteq> []"
    and diff: "basename p1 \<noteq> get_audio_cache_filename url"
  shows "audio_cache_lookup w (get_audio_cache_filename url) = None \<and>
         (case download_audio e url now w of
            (Inl ex, w') \<Rightarrow>
              cached_audio_path w' = Some p1 \<and>
              last_access_time w' = last_access_time w \<and>
              files w' = files (snd (acquire_audio e url (path_join AUDIO_CACHE_DIR (get_audio_cache_filename url)) w))
                           - {path_join AUDIO_CACHE_DIR (get_audio_cache_filename url)} \<and>
              p1 \<noteq> path_join AUDIO_CACHE_DIR (get_audio_cache_filename url)
          | (Inr r, w') \<Rightarrow>
              fst (acquire_audio e url (path_join AUDIO_CACHE_DIR (get_audio_cache_filename url)) w) = None \<and>
              path_join AUDIO_CACHE_DIR (get_audio_cache_filename url)
                \<in> files (snd (acquire_audio e url (path_join AUDIO_CACHE_DIR (get_audio_cache_filename url)) w)) \<and>
              cached_audio_path w' = Some (path_join AUDIO_CACHE_DIR (get_audio_cache_filename url)))"
proof -
  let ?p2 = "path_join AUDIO_CACHE_DIR (get_audio_cache_filename url)"
  have miss: "audio_cache_lookup w (get_audio_cache_filename url) = None"
    using res diff by (simp add: audio_cache_lookup_def)
  have ne: "p1 \<noteq> ?p2" by (rule audio_miss_new_path [OF miss res])
  from miss have "case download_audio e url now w of
            (Inl ex, w') \<Rightarrow>
              cached_audio_path w' = Some p1 \<and>
              last_access_time w' = last_access_time w \<and>
              files w' = files (snd (acquire_audio e url ?p2 w)) - {?p2} \<and>
              p1 \<noteq> ?p2
          | (Inr r, w') \<Rightarrow>
              fst (acquire_audio e url ?p2 w) = None \<and>
              ?p2 \<in> files (snd (acquire_audio e url ?p2 w)) \<and>
              cached_audio_path w' = Some ?p2"
  proof (cases rule: audio_miss_cases [where e = e])
    case (error ex w1)
    then show ?thesis
      using acquire_audio_frame [OF error] res ne
      by (simp add: audio_miss_error [OF miss error])
  next
    case (missing w1)
    then show ?thesis
      using acquire_audio_frame [OF missing(1)] res ne
      by (simp add: audio_miss_missing [OF miss missing])
  next
    case (success w1)
    then show ?thesis
      by (simp add: audio_miss_success [OF miss success] store_audio_def)
  qed
  with miss show ?thesis by simp
qed

text \<open>
  Claim C8. The slot holds the non-empty path \<open>p1\<close> and the request is for another file
  name, so the lookup gives nothing. If the handler ends in an error, the slot still holds
  \<open>p1\<close>, the access time is unchanged, and the only file the handler itself removed is the
  one at the new path, which is not \<open>p1\<close>. If it ends in a response, the acquisition raised
  nothing, the output existed, and the slot holds the new path: the replace.
\<close>

theorem miss_keeps_resident:
  "(cached_video_path w = Some p1 \<and> p1 \<noteq> [] \<and> basename p1 \<noteq> get_cache_filename url \<longrightarrow>
      video_cache_lookup w (get_cache_filename url) = None \<and>
      (case download_video e url now w of
         (Inl ex, w') \<Rightarrow>
           cached_video_path w' = Some p1 \<and>
           last_access_time w' = last_access_time w \<and>
           files w' = files (snd (acquire_video e url (path_join CACHE_DIR (get_cache_filename url)) w))
                        - {path_join CACHE_DIR (get_cache_filename url)} \<and>
           p1 \<noteq> path_join CACHE_DIR (get_cache_filename url)
       | (Inr r, w') \<Rightarrow>
           fst (acquire_video e url (path_join CACHE_DIR (get_cache_filename url)) w) = None \<and>
           path_join CACHE_DIR (get_cache_filename url)
             \<in> files (snd (acquire_video e url (path_join CACHE_DIR (get_cache_filename url)) w)) \<and>
           cached_video_path w' = Some (path_join CACHE_DIR (get_cache_filename url)))) \<and>
   (cached_audio_path w = Some p1 \<and> p1 \<noteq> [] \<and> basename p1 \<noteq> get_audio_cache_filename url \<longrightarrow>
      audio_cache_lookup w (get_audio_cache_filename url) = None \<and>
      (case download_audio e url now w of
         (Inl ex, w') \<Rightarrow>
           cached_audio_path w' = Some p1 \<and>
           last_access_time w' = last_access_time w \<and>
           files w' = files (snd (acquire_audio e url (path_join AUDIO_CACHE_DIR (get_audio_cache_filename url)) w))
                        - {path_join AUDIO_CACHE_DIR (get_audio_cache_filename url)} \<and>
           p1 \<noteq> path_join AUDIO_CACHE_DIR (get_audio_cache_filename url)
       | (Inr r, w') \<Rightarrow>
           fst (acquire_audio e url (path_join AUDIO_CACHE_DIR (get_audio_cache_filename url)) w) = None \<and>
           path_join AUDIO_CACHE_DIR (get_audio_cache_filename url)
             \<in> files (snd (acquire_audio e url (path_join AUDIO_CACHE_DIR (get_audio_cache_filename url)) w)) \<and>
           cached_audio_path w' = Some (path_join AUDIO_CACHE_DIR (get_audio_cache_filename url))))"
  (is "(?V \<longrightarrow> ?VC) \<and> (?A \<longrightarrow> ?AC)")
proof -
  have v: "?V \<longrightarrow> ?VC" using video_miss_resident [of w p1 url e now] by simp
  have a: "?A \<longrightarrow> ?AC" using audio_miss_resident [of w p1 url e now] by simp
  show ?thesis by (rule conjI [OF v a])
qed

lemma ex_fail_video_two:
  "download_video (example_env ydl_fails) ''https://x/2'' 200 world_two =
     (Inl (HTTPException 500 ''ERROR: Unsupported URL''),
      world_two\<lparr>ydl_log := ydl_log world_two @ [''https://x/2'']\<rparr>)"
  by (simp add: handler_defs video_name2 example_defs world_two_def insert_Diff_if)

lemma ex_fail_audio_two:
  "download_audio (example_env ydl_fails) ''https://x/1'' 200 world_two =
     (Inl (HTTPException 500 ''ERROR: Unsupported URL''),
      world_two\<lparr>ydl_log := ydl_log world_two @ [''https://x/1'']\<rparr>)"
  by (simp add: handler_defs audio_name1 example_defs world_two_def insert_Diff_if)

text \<open>
  C8 at a concrete state: a failing request for another URL leaves the resident file
  and its slot.
\<close>

theorem miss_keeps_resident_witness:
  "(cached_video_path world_two = Some ''/tmp/video_cache/2b6a374db3ab8f57f12fc5ebaf42145e.mp4'' \<and>
    basename ''/tmp/video_cache/2b6a374db3ab8f57f12fc5ebaf42145e.mp4'' \<noteq> get_cache_filename ''https://x/2'') \<and>
   (video_cache_lookup world_two (get_cache_filename ''https://x/2'') = None \<and>
    fst (download_video (example_env ydl_fails) ''https://x/2'' 200 world_two)
      = Inl (HTTPException 500 ''ERROR: Unsupported URL'') \<and>
    cached_video_path (snd (download_video (example_env ydl_fails) ''https://x/2'' 200 world_two))
      = Some ''/tmp/video_cache/2b6a374db3ab8f57f12fc5ebaf42145e.mp4'' \<and>
    ''/tmp/video_cache/2b6a374db3ab8f57f12fc5ebaf42145e.mp4''
      \<in> files (snd (download_video (example_env ydl_fails) ''https://x/2'' 200 world_two))) \<and>
   (cached_audio_path world_two = Some ''/tmp/audio_cache/2261a33c50b05c275acf523c6e502e53.mp3'' \<and>
    basename ''/tmp/audio_cache/2261a33c50b05c275acf523c6e502e53.mp3'' \<noteq> get_audio_cache_filename ''https://x/1'') \<and>
   (audio_cache_lookup world_two (get_audio_cache_filename ''https://x/1'') = None \<and>
    fst (download_audio (example_env ydl_fails) ''https://x/1'' 200 world_two)
      = Inl (HTTPException 500 ''ERROR: Unsupported URL'') \<and>
    cached_audio_path (snd (download_audio (example_env ydl_fails) ''https://x/1'' 200 world_two))
      = Some ''/tmp/audio_cache/2261a33c50b05c275acf523c6e502e53.mp3'' \<and>
    ''/tmp/audio_cache/2261a33c50b05c275acf523c6e502e53.mp3''
      \<in> files (snd (download_audio (example_env ydl_fails) ''https://x/1'' 200 world_two)))"
proof -
  have res: "cached_video_path world_two = Some ''/tmp/video_cache/2b6a374db3ab8f57f12fc5ebaf42145e.mp4''"
    "cached_audio_path world_two = Some ''/tmp/audio_cache/2261a33c50b05c275acf523c6e502e53.mp3''"
    by (simp_all add: world_two_def)
  have names: "basename ''/tmp/video_cache/2b6a374db3ab8f57f12fc5ebaf42145e.mp4'' \<noteq> get_cache_filename ''https://x/2''"
    "basename ''/tmp/audio_cache/2261a33c50b05c275acf523c6e502e53.mp3'' \<noteq> get_audio_cache_filename ''https://x/1''"
    by (simp_all add: basename_def video_name2 audio_name1)
  note v = miss_keeps_resident
    [of world_two "''/tmp/video_cache/2b6a374db3ab8f57f12fc5ebaf42145e.mp4''" "''https://x/2''"
        "example_env ydl_fails" 200]
  note a = miss_keeps_resident
    [of world_two "''/tmp/audio_cache/2261a33c50b05c275acf523c6e502e53.mp3''" "''https://x/1''"
        "example_env ydl_fails" 200]
  have lv: "video_cache_lookup world_two (get_cache_filename ''https://x/2'') = None"
    using v res names by simp
  have cv: "cached_video_path (snd (download_video (example_env ydl_fails) ''https://x/2'' 200 world_two))
      = Some ''/tmp/video_cache/2b6a374db3ab8f57f12fc5ebaf42145e.mp4''"
    using v res names by (simp add: ex_fail_video_two)
  have la: "audio_cache_lookup world_two (get_audio_cache_filename ''https://x/1'') = None"
    using a res names by simp
  have ca: "cached_audio_path (snd (download_audio (example_env ydl_fails) ''https://x/1'' 200 world_two))
      = Some ''/tmp/audio_cache/2261a33c50b05c275acf523c6e502e53.mp3''"
    using a res names by (simp add: ex_fail_audio_two)
  have fv: "''/tmp/video_cache/2b6a374db3ab8f57f12fc5ebaf42145e.mp4''
      \<in> files (snd (download_video (example_env ydl_fails) ''https://x/2'' 200 world_two))"
    "''/tmp/audio_cache/2261a33c50b05c275acf523c6e502e53.mp3''
      \<in> files (snd (download_audio (example_env ydl_fails) ''https://x/1'' 200 world_two))"
    unfolding ex_fail_video_two ex_fail_audio_two by (simp_all add: world_two_def)
  show ?thesis
    using res names lv cv la ca fv by (simp add: ex_fail_video_two ex_fail_audio_two)
qed

section \<open>Installing the binary once\<close>

lemma ffmpeg_present:
  assumes "path_join (CONFIG_DIR e) ''ffmpeg'' \<in> files w"
  shows "download_and_extract_ffmpeg e w = (Inr (path_join (CONFIG_DIR e) ''ffmpeg''), w)"
  using assms by (simp add: download_and_extract_ffmpeg_def)

lemma ffmpeg_returned:
  assumes "download_and_extract_ffmpeg e w = (Inr p, w1)"
  shows "p = path_join (CONFIG_DIR e) ''ffmpeg'' \<and> p \<in> files w1"
  using assms
  by (auto simp: download_and_extract_ffmpeg_def Let_def
           split: if_splits sum.splits)

text \<open>
  Claim C9. If the binary exists at \<^verbatim>\<open>CONFIG_DIR/ffmpeg\<close> the function returns that
  path and the state is unchanged: no request is made, no file is touched. A call that
  returned a path is followed by a call that returns the same path and changes nothing.
\<close>

theorem ffmpeg_install_idempotent:
  "(path_join (CONFIG_DIR e) ''ffmpeg'' \<in> files w \<longrightarrow>
      download_and_extract_ffmpeg e w = (Inr (path_join (CONFIG_DIR e) ''ffmpeg''), w)) \<and>
   (fst (download_and_extract_ffmpeg e w) = Inr p \<and> CONFIG_DIR e' = CONFIG_DIR e \<longrightarrow>
      download_and_extract_ffmpeg e' (snd (download_and_extract_ffmpeg e w))
        = (Inr p, snd (download_and_extract_ffmpeg e w)))"
proof (intro conjI impI)
  assume "path_join (CONFIG_DIR e) ''ffmpeg'' \<in> files w"
  then show "download_and_extract_ffmpeg e w = (Inr (path_join (CONFIG_DIR e) ''ffmpeg''), w)"
    by (rule ffmpeg_present)
next
  let ?w1 = "snd (download_and_extract_ffmpeg e w)"
  assume h: "fst (download_and_extract_ffmpeg e w) = Inr p \<and> CONFIG_DIR e' = CONFIG_DIR e"
  then have r: "download_and_extract_ffmpeg e w = (Inr p, ?w1)"
    by (cases "download_and_extract_ffmpeg e w") simp
  from ffmpeg_returned [OF r] have p0: "p = path_join (CONFIG_DIR e) ''ffmpeg''"
    by (rule conjunct1)
  from ffmpeg_returned [OF r] have mem: "p \<in> files ?w1"
    by (rule conjunct2)
  from h have "CONFIG_DIR e' = CONFIG_DIR e" by (rule conjunct2)
  with p0 have p: "p = path_join (CONFIG_DIR e') ''ffmpeg''" by simp
  have "path_join (CONFIG_DIR e') ''ffmpeg'' \<in> files ?w1"
    using mem unfolding p .
  from ffmpeg_present [OF this]
  show "download_and_extract_ffmpeg e' ?w1 = (Inr p, ?w1)"
    unfolding p .
qed

lemma ex_install:
  "fst (download_and_extract_ffmpeg (example_env ydl_writes) world_zero) = Inr ''/config/ffmpeg'' \<and>
   requests_log (snd (download_and_extract_ffmpeg (example_env ydl_writes) world_zero))
     = [''https://github.com/yt-dlp/FFmpeg-Builds/releases/download/latest/ffmpeg-master-latest-linux64-gpl.tar.xz''] \<and>
   ''/config/ffmpeg'' \<in> files (snd (download_and_extract_ffmpeg (example_env ydl_writes) world_zero)) \<and>
   ''/tmp/tmpx'' \<notin> files (snd (download_and_extract_ffmpeg (example_env ydl_writes) world_zero)) \<and>
   ''/tmp/tmpx/ffmpeg.archive'' \<notin> files (snd (download_and_extract_ffmpeg (example_env ydl_writes) world_zero)) \<and>
   ''/tmp/tmpx/build/bin/ffprobe'' \<notin> files (snd (download_and_extract_ffmpeg (example_env ydl_writes) world_zero))"
  by (simp add: download_and_extract_ffmpeg_def example_env_def world_zero_def get_ffmpeg_url_def
        FFMPEG_BUILDS_URL_def path_join_def Let_def walk_paths_def rmtree_def)

text \<open>
  C9 at two concrete states: the binary is present; the binary is absent and the first
  call downloads, extracts and installs it.
\<close>

theorem ffmpeg_install_idempotent_witness:
  "(''/config/ffmpeg'' \<in> files world_one \<and>
    download_and_extract_ffmpeg (example_env ydl_writes) world_one = (Inr ''/config/ffmpeg'', world_one)) \<and>
   (''/config/ffmpeg'' \<notin> files world_zero \<and>
    fst (download_and_extract_ffmpeg (example_env ydl_writes) world_zero) = Inr ''/config/ffmpeg'' \<and>
    requests_log (snd (download_and_extract_ffmpeg (example_env ydl_writes) world_zero))
      = [''https://github.com/yt-dlp/FFmpeg-Builds/releases/download/latest/ffmpeg-master-latest-linux64-gpl.tar.xz''] \<and>
    download_and_extract_ffmpeg (example_env ydl_silent)
        (snd (download_and_extract_ffmpeg (example_env ydl_writes) world_zero))
      = (Inr ''/config/ffmpeg'', snd (download_and_extract_ffmpeg (example_env ydl_writes) world_zero)))"
proof -
  have cfg: "path_join (CONFIG_DIR (example_env ydl_writes)) ''ffmpeg'' = ''/config/ffmpeg''"
    "CONFIG_DIR (example_env ydl_silent) = CONFIG_DIR (example_env ydl_writes)"
    by (simp_all add: example_env_def path_join_def)
  have pres: "''/config/ffmpeg'' \<in> files world_one" "''/config/ffmpeg'' \<notin> files world_zero"
    by (simp_all add: world_one_def world_zero_def)
  note one = ffmpeg_install_idempotent [of "example_env ydl_writes" world_one]
  note zero = ffmpeg_install_idempotent
    [of "example_env ydl_writes" world_zero "''/config/ffmpeg''" "example_env ydl_silent"]
  have a: "download_and_extract_ffmpeg (example_env ydl_writes) world_one = (Inr ''/config/ffmpeg'', world_one)"
    using one pres cfg by simp
  have b: "download_and_extract_ffmpeg (example_env ydl_silent)
        (snd (download_and_extract_ffmpeg (example_env ydl_writes) world_zero))
      = (Inr ''/config/ffmpeg'', snd (download_and_extract_ffmpeg (example_env ydl_writes) world_zero))"
    using zero ex_install cfg by simp
  show ?thesis using a b pres ex_install by simp
qed

end
